theory Spec2Isabelle
  imports Main "HOL-Library.Word"
begin

section \<open>The replicated state machine of ReplicatedStateMachine-inl.h\<close>

text \<open>
  A shallow embedding of the member functions of \<open>ReplicatedStateMachine<T, D>\<close>.
  The object is a record of its data members (named as in the source, without the
  trailing underscore), every member function takes the record and returns the updated one. Everything the object does to the outside world (the callbacks
  it invokes, the requests it posts, the critical messages it logs) is appended to the
  field \<open>effects\<close>, in program order. The virtual functions of the class and the library
  functions it calls are fields of the record \<open>env\<close>, together with the settings that the
  member functions only read.

  \<open>ld_check\<close> is a debug-build assertion and compiles to nothing in a production build;
  the model follows the production build, and a theorem that relies on an asserted
  condition assumes it. Logging below the critical level is left out.
\<close>

subsection \<open>Basic types\<close>

type_synonym lsn_t = "64 word"
type_synonym size_t = "64 word"
type_synonym logid_t = "64 word"
type_synonym read_stream_id_t = "64 word"
type_synonym byte = "8 word"
type_synonym Payload = "byte list"
type_synonym milliseconds = int

text \<open>\<open>boost::uuids::uuid\<close>: sixteen bytes; the nil uuid is sixteen zero bytes.\<close>
type_synonym uuid_t = "byte list"

text \<open>A \<open>std::function\<close> callback is opaque to the class: it is modelled by a handle,
  and a call of it by an effect carrying the handle and the arguments.\<close>
type_synonym callback = nat

text \<open>Modelled from the spec: the LSN sentinels \<open>INVALID\<close>, \<open>OLDEST\<close> and \<open>MAX\<close> are
  declared in a header that is not part of the sources; they are the smallest, the second
  smallest and the largest 64-bit value.\<close>
definition LSN_INVALID :: lsn_t where "LSN_INVALID = 0"
definition LSN_OLDEST :: lsn_t where "LSN_OLDEST = 1"
definition LSN_MAX :: lsn_t where "LSN_MAX = - 1"

text \<open>Modelled from the spec: the invalid log id and the invalid read stream id.\<close>
definition LOGID_INVALID :: logid_t where "LOGID_INVALID = 0"
definition READ_STREAM_ID_INVALID :: read_stream_id_t where "READ_STREAM_ID_INVALID = 0"

datatype Status =
    E_OK | E_AGAIN | E_NOBUFS | E_NOTSUPPORTED | E_STALE | E_FAILED | E_TIMEDOUT
  | E_BADMSG | E_INPROGRESS | E_UPTODATE | E_EMPTY | E_NOTFOUND | E_TOOBIG | E_OTHER nat

datatype SyncState = SYNC_SNAPSHOT | SYNC_DELTAS | TAILING

datatype WriteMode = CONFIRM_APPEND_ONLY | CONFIRM_APPLIED

datatype GapType =
    GAP_UNKNOWN | GAP_BRIDGE | GAP_HOLE | GAP_DATALOSS | GAP_TRIM | GAP_ACCESS
  | GAP_NOTINCONFIG | GAP_FILTERED_OUT

datatype RsmVersionType = IN_MEMORY | DURABLE

record DataRecord =
  lsn :: lsn_t
  timestamp :: milliseconds
  payload :: Payload

record GapRecord =
  gap_type :: GapType
  lo :: lsn_t
  hi :: lsn_t

record SnapshotAttributes =
  attr_base_version :: lsn_t
  attr_timestamp :: milliseconds

subsection \<open>The delta header\<close>

text \<open>Modelled from the spec: \<open>struct DeltaHeader\<close> is declared in the class header, which
  is not part of the sources. The code reads \<open>header.checksum\<close>, \<open>header.header_sz\<close> (at
  \<open>offsetof(DeltaHeader, header_sz)\<close>, after the checksum) and \<open>header.uuid\<close>; the layout
  is a 32-bit checksum, the 32-bit header size and the uuid, 24 bytes, little endian.\<close>
record DeltaHeader =
  checksum :: "32 word"
  header_sz :: "32 word"
  uuid :: uuid_t

definition sizeof_DeltaHeader :: nat where "sizeof_DeltaHeader = 24"
definition offsetof_header_sz :: nat where "offsetof_header_sz = 4"

definition nil_uuid :: uuid_t where "nil_uuid = replicate 16 0"

definition is_nil :: "uuid_t \<Rightarrow> bool" where
  "is_nil u = (\<forall>b \<in> set u. b = 0)"

text \<open>\<open>DeltaHeader{}\<close>: value initialisation.\<close>
definition DeltaHeader_default :: DeltaHeader where
  "DeltaHeader_default = \<lparr>checksum = 0, header_sz = 0, uuid = nil_uuid\<rparr>"

definition u32_bytes :: "32 word \<Rightarrow> byte list" where
  "u32_bytes w = [ucast w, ucast (drop_bit 8 w), ucast (drop_bit 16 w), ucast (drop_bit 24 w)]"

definition bytes_u32 :: "byte list \<Rightarrow> 32 word" where
  "bytes_u32 bs =
     ucast (bs ! 0) + push_bit 8 (ucast (bs ! 1)) + push_bit 16 (ucast (bs ! 2))
       + push_bit 24 (ucast (bs ! 3))"

text \<open>The object representation of a header, and the header that 24 bytes represent.\<close>
definition header_bytes :: "DeltaHeader \<Rightarrow> byte list" where
  "header_bytes h = u32_bytes (checksum h) @ u32_bytes (header_sz h) @ take 16 (uuid h @ replicate 16 0)"

definition bytes_header :: "byte list \<Rightarrow> DeltaHeader" where
  "bytes_header bs =
     \<lparr>checksum = bytes_u32 (take 4 bs), header_sz = bytes_u32 (take 4 (drop 4 bs)),
      uuid = take 16 (drop 8 bs)\<rparr>"

text \<open>\<open>memcpy(&header, ptr, n)\<close>: the first \<open>n\<close> bytes of the object are overwritten.\<close>
definition memcpy_header :: "DeltaHeader \<Rightarrow> byte list \<Rightarrow> nat \<Rightarrow> DeltaHeader" where
  "memcpy_header h src n = bytes_header (take n src @ drop n (header_bytes h))"

subsection \<open>The snapshot header\<close>

text \<open>Modelled from the spec: \<open>RSMSnapshotHeader\<close> with the fields the code reads.\<close>
record RSMSnapshotHeader =
  format_version :: "32 word"
  flags :: "32 word"
  byte_offset :: size_t
  offset :: size_t
  base_version :: lsn_t
  delta_log_read_ptr :: lsn_t

subsection \<open>Pending confirmations, closures and effects\<close>

text \<open>Modelled from the spec: \<open>struct DeltaPendingConfirmation\<close>; \<open>timer_p\<close> says whether
  the entry owns a timer.\<close>
record DeltaPendingConfirmation =
  uuid_p :: uuid_t
  lsn_p :: lsn_t
  cb_p :: callback
  timeout_p :: milliseconds
  timer_p :: bool

text \<open>The lambda \<open>append_cb\<close> of \<open>writeDelta\<close> with the values it captures, and the lambda
  \<open>snapshot_cb\<close> of \<open>snapshot\<close> with the values it captures.\<close>
datatype append_closure = Append_cb WriteMode uuid_t callback

datatype snapshot_closure =
  Snapshot_cb (cap_byte_offset: size_t) (cap_offset: size_t) (cap_delta_read_ptr: lsn_t)
    (cap_payload_size: nat) (cap_cb: "callback option")

datatype ('T, 'D) effect =
    Write_cb callback Status lsn_t string
  | Update_cb callback 'T "'D option" lsn_t
  | Status_cb callback Status
  | Call_applyDelta 'D 'T lsn_t milliseconds
  | Call_gotInitialState 'T
  | Call_onSnapshotCreated Status nat
  | AdvertiseVersions RsmVersionType lsn_t
  | Log_critical string
  | PostAppendRequest logid_t Payload milliseconds append_closure
  | PostSnapshotAppend logid_t Payload milliseconds snapshot_closure
  | WriteSnapshot lsn_t Payload snapshot_closure
  | PostCallbackRequest Status lsn_t snapshot_closure
  | SyncSequencerRequest logid_t
  | CreateBasicReadStream logid_t lsn_t lsn_t
  | ResumeReadStream read_stream_id_t
  | Stat_decr_stalled

subsection \<open>Settings, virtual functions and library functions\<close>

record ('T, 'D) env =
  makeDefaultState :: "lsn_t \<Rightarrow> 'T"
  deserializeState :: "Payload \<Rightarrow> lsn_t \<Rightarrow> milliseconds \<Rightarrow> Status + 'T"
  deserializeDelta_virtual :: "Payload \<Rightarrow> Status + 'D"
  applyDelta :: "'D \<Rightarrow> 'T \<Rightarrow> lsn_t \<Rightarrow> milliseconds \<Rightarrow> 'T \<times> int \<times> Status \<times> string"
  serializeState :: "'T \<Rightarrow> Payload"
  checksum_32bit :: "Payload \<Rightarrow> 32 word"
  uuid_gen :: "nat \<Rightarrow> uuid_t"
  issueReadStreamID :: "nat \<Rightarrow> read_stream_id_t"
  RSMSnapshotHeader_deserialize :: "Payload \<Rightarrow> int \<times> RSMSnapshotHeader"
  RSMSnapshotHeader_serialize :: "RSMSnapshotHeader \<Rightarrow> Payload"
  ZSTD_getDecompressedSize :: "Payload \<Rightarrow> nat"
  ZSTD_decompress :: "nat \<Rightarrow> Payload \<Rightarrow> (nat \<times> Payload) option"
  ZSTD_compress :: "Payload \<Rightarrow> Payload option"
  MIN_DELTA_HEADER_SZ :: nat
  CONTAINS_DELTA_LOG_READ_PTR_AND_LENGTH :: "32 word"
  BASE_VERSION :: "32 word"
  ZSTD_COMPRESSION :: "32 word"
  delta_log_id :: logid_t
  snapshot_log_id :: logid_t
  snapshot_store :: bool
  server :: bool
  can_skip_bad_snapshot :: bool
  deliver_while_replaying :: bool
  stop_at_tail :: bool
  stall_if_data_loss :: bool
  write_delta_header :: bool
  snapshot_compression :: bool
  rsm_include_read_pointer_in_snapshot :: bool
  max_pending_confirmation :: nat
  confirm_timeout :: milliseconds
  delta_append_timeout :: milliseconds
  snapshot_append_timeout :: milliseconds

subsection \<open>The data members\<close>

text \<open>
  \<open>pending_confirmation\<close> is the \<open>std::list\<close>; each node carries the handle that stands
  for its iterator, and \<open>pending_confirmation_by_uuid\<close> maps a uuid to such a handle.
  The timers are modelled by whether they are active.
\<close>
record ('T, 'D) rsm =
  data :: 'T
  version :: lsn_t
  last_snapshot_version :: lsn_t
  last_snapshot_last_read_ptr :: lsn_t
  delta_read_ptr :: lsn_t
  delta_log_byte_offset :: size_t
  delta_log_offset :: size_t
  last_snapshot_byte_offset :: size_t
  last_snapshot_offset :: size_t
  snapshot_log_timestamp :: milliseconds
  snapshot_sync :: lsn_t
  delta_sync :: lsn_t
  waiting_for_snapshot :: lsn_t
  sync_state :: SyncState
  pending_confirmation :: "(nat \<times> DeltaPendingConfirmation) list"
  pending_confirmation_by_uuid :: "uuid_t \<rightharpoonup> nat"
  next_iterator :: nat
  last_written_version :: lsn_t
  snapshot_in_flight :: bool
  subscribers :: "callback list"
  state_delivery_blocked :: bool
  latest_published_version :: "lsn_t option"
  allow_fast_forward_up_to :: lsn_t
  bumped_stalled_stat :: bool
  delta_read_stream_is_healthy :: bool
  delta_appends_in_flight :: size_t
  stopped :: bool
  last_uuid :: uuid_t
  uuid_gen_calls :: nat
  delta_log_rsid :: read_stream_id_t
  read_stream_ids_issued :: nat
  fastForwardGracePeriodTimer_active :: bool
  stallGracePeriodTimer_active :: bool
  snapshotting_timer_active :: bool
  get_snapshot_timer :: "bool option"
  read_stream_deletion_timer_assigned :: bool
  effects :: "('T, 'D) effect list"

definition emit :: "('T, 'D) effect list \<Rightarrow> ('T, 'D) rsm \<Rightarrow> ('T, 'D) rsm" where
  "emit es s = s\<lparr>effects := effects s @ es\<rparr>"


subsection \<open>Subscribers\<close>

text \<open>\<open>advertiseVersions\<close> returns at once unless it runs on a worker whose settings
  say \<open>server\<close>; the field \<open>server\<close> of \<open>env\<close> says whether there is such a worker.\<close>
definition advertiseVersions :: "('T, 'D) env \<Rightarrow> RsmVersionType \<Rightarrow> lsn_t \<Rightarrow> ('T, 'D) rsm \<Rightarrow> ('T, 'D) rsm" where
  "advertiseVersions e ty v s = (if \<not> server e then s else emit [AdvertiseVersions ty v] s)"

definition notifySubscribers :: "('T, 'D) env \<Rightarrow> 'D option \<Rightarrow> ('T, 'D) rsm \<Rightarrow> ('T, 'D) rsm" where
  "notifySubscribers e delta s =
     (if subscribers s = [] then s
      else if state_delivery_blocked s then s
      else advertiseVersions e IN_MEMORY (version s)
             ((emit (map (\<lambda>cb. Update_cb cb (data s) delta (version s)) (subscribers s)) s)
                \<lparr>latest_published_version := Some (version s)\<rparr>))"

definition subscribe :: "callback \<Rightarrow> ('T, 'D) rsm \<Rightarrow> ('T, 'D) rsm" where
  "subscribe cb s =
     (let s1 = (if sync_state s = TAILING then emit [Update_cb cb (data s) None (version s)] s
                else s)
      in s1\<lparr>subscribers := subscribers s1 @ [cb]\<rparr>)"

definition blockStateDelivery :: "('T, 'D) env \<Rightarrow> bool \<Rightarrow> ('T, 'D) rsm \<Rightarrow> bool \<times> ('T, 'D) rsm" where
  "blockStateDelivery e blocked s =
     (let prev = state_delivery_blocked s;
          s1 = s\<lparr>state_delivery_blocked := blocked\<rparr>
      in if prev \<and> \<not> blocked \<and> (sync_state s1 = TAILING \<or> deliver_while_replaying e)
         then (prev, notifySubscribers e None s1)
         else (prev, s1))"

subsection \<open>Pending confirmations\<close>

text \<open>The \<open>while\<close> loop of \<open>discardSkippedPendingDeltas\<close>: each round fires the callback of
  the front entry and erases the entry from the map and from the list.\<close>
function discardSkippedPendingDeltas :: "('T, 'D) rsm \<Rightarrow> ('T, 'D) rsm" where
  "discardSkippedPendingDeltas s =
     (case pending_confirmation s of
        [] \<Rightarrow> s
      | front # rest \<Rightarrow>
          if lsn_p (snd front) \<noteq> LSN_INVALID \<and> lsn_p (snd front) \<le> version s
          then discardSkippedPendingDeltas
                 ((emit [Write_cb (cb_p (snd front)) E_FAILED (lsn_p (snd front))
                           ''Cannot confirm operation''] s)
                    \<lparr>pending_confirmation_by_uuid :=
                       (pending_confirmation_by_uuid s)(uuid_p (snd front) := None),
                     pending_confirmation := rest\<rparr>)
          else s)"
  by pat_completeness auto
termination
  by (relation "measure (\<lambda>s. length (pending_confirmation s))") (auto simp: emit_def)

declare discardSkippedPendingDeltas.simps [simp del]

text \<open>\<open>pending_confirmation_.erase(it)\<close> and the entry \<open>*it\<close>. The class keeps every handle
  of the map pointing at a node of the list; for a handle with no node \<open>node_at\<close> is
  \<open>None\<close>.\<close>
definition erase_node :: "nat \<Rightarrow> (nat \<times> DeltaPendingConfirmation) list \<Rightarrow> (nat \<times> DeltaPendingConfirmation) list" where
  "erase_node it xs = filter (\<lambda>n. fst n \<noteq> it) xs"

definition node_at :: "nat \<Rightarrow> (nat \<times> DeltaPendingConfirmation) list \<Rightarrow> DeltaPendingConfirmation option" where
  "node_at it xs = map_of xs it"



definition onDeltaConfirmationTimeout :: "uuid_t \<Rightarrow> ('T, 'D) rsm \<Rightarrow> ('T, 'D) rsm" where
  "onDeltaConfirmationTimeout u s =
     (case pending_confirmation_by_uuid s u of
        None \<Rightarrow> s
      | Some it \<Rightarrow>
          (case node_at it (pending_confirmation s) of
             None \<Rightarrow> s
           | Some p \<Rightarrow>
               (emit [Write_cb (cb_p p) E_TIMEDOUT (lsn_p p) ''Operation timed out!''] s)
                 \<lparr>pending_confirmation := erase_node it (pending_confirmation s),
                  pending_confirmation_by_uuid := (pending_confirmation_by_uuid s)(u := None)\<rparr>))"

subsection \<open>Bootstrap\<close>

definition scheduleStop :: "('T, 'D) rsm \<Rightarrow> ('T, 'D) rsm" where
  "scheduleStop s =
     (if \<not> read_stream_deletion_timer_assigned s
      then s\<lparr>read_stream_deletion_timer_assigned := True\<rparr> else s)"

definition onReachedDeltaLogTailLSN :: "('T, 'D) env \<Rightarrow> ('T, 'D) rsm \<Rightarrow> ('T, 'D) rsm" where
  "onReachedDeltaLogTailLSN e s =
     (let s1 = s\<lparr>sync_state := TAILING\<rparr>;
          s2 = (if \<not> deliver_while_replaying e then notifySubscribers e None s1 else s1)
      in if stop_at_tail e then scheduleStop s2 else s2)"

definition getDeltaLogTailLSN :: "('T, 'D) env \<Rightarrow> ('T, 'D) rsm \<Rightarrow> ('T, 'D) rsm" where
  "getDeltaLogTailLSN e s = emit [SyncSequencerRequest (delta_log_id e)] s"

definition getSnapshotLogTailLSN :: "('T, 'D) env \<Rightarrow> ('T, 'D) rsm \<Rightarrow> ('T, 'D) rsm" where
  "getSnapshotLogTailLSN e s = emit [SyncSequencerRequest (snapshot_log_id e)] s"

definition activateGracePeriodForSnapshotting :: "('T, 'D) rsm \<Rightarrow> ('T, 'D) rsm" where
  "activateGracePeriodForSnapshotting s = s\<lparr>snapshotting_timer_active := True\<rparr>"

definition onBaseSnapshotRetrieved :: "('T, 'D) env \<Rightarrow> ('T, 'D) rsm \<Rightarrow> ('T, 'D) rsm" where
  "onBaseSnapshotRetrieved e s =
     (let s1 = advertiseVersions e IN_MEMORY (version s) s;
          s2 = activateGracePeriodForSnapshotting s1;
          s3 = emit [Call_gotInitialState (data s2)] s2;
          s4 = s3\<lparr>sync_state := SYNC_DELTAS\<rparr>;
          s5 = (if delta_read_ptr s4 = LSN_INVALID
                then s4\<lparr>delta_read_ptr := last_snapshot_last_read_ptr s4\<rparr> else s4)
      in getDeltaLogTailLSN e s5)"

definition onGotDeltaLogTailLSN :: "('T, 'D) env \<Rightarrow> lsn_t \<Rightarrow> ('T, 'D) rsm \<Rightarrow> ('T, 'D) rsm" where
  "onGotDeltaLogTailLSN e l s =
     (let s1 = s\<lparr>delta_sync := l\<rparr>;
          start_lsn = max (version s1) (last_snapshot_last_read_ptr s1) + 1;
          until_lsn = (if stop_at_tail e then delta_sync s1 else LSN_MAX);
          s2 = (if delta_log_rsid s1 = READ_STREAM_ID_INVALID \<and> start_lsn \<le> until_lsn
                then (emit [CreateBasicReadStream (delta_log_id e) start_lsn until_lsn] s1)
                       \<lparr>delta_log_rsid := issueReadStreamID e (read_stream_ids_issued s1),
                        read_stream_ids_issued := Suc (read_stream_ids_issued s1)\<rparr>
                else s1)
      in if version s2 \<ge> delta_sync s2 \<or> delta_read_ptr s2 \<ge> delta_sync s2
         then onReachedDeltaLogTailLSN e s2 else s2)"

definition onDeltaLogReadStreamHealthChange :: "('T, 'D) env \<Rightarrow> bool \<Rightarrow> ('T, 'D) rsm \<Rightarrow> ('T, 'D) rsm" where
  "onDeltaLogReadStreamHealthChange e is_healthy s =
     (let s1 = (if delta_read_stream_is_healthy s \<noteq> is_healthy \<and> is_healthy
                     \<and> sync_state s = TAILING
                then getDeltaLogTailLSN e (s\<lparr>sync_state := SYNC_DELTAS\<rparr>) else s)
      in s1\<lparr>delta_read_stream_is_healthy := is_healthy\<rparr>)"

text \<open>\<open>get_snapshot_timer\<close> is \<open>None\<close> while the timer object does not exist, and
  otherwise says whether the timer is active.\<close>
definition activateSnapshotFetchTimer :: "('T, 'D) rsm \<Rightarrow> ('T, 'D) rsm" where
  "activateSnapshotFetchTimer s =
     (case get_snapshot_timer s of
        None \<Rightarrow> s
      | Some a \<Rightarrow> s\<lparr>get_snapshot_timer := Some True\<rparr>)"

definition initSnapshotFetchTimer :: "('T, 'D) rsm \<Rightarrow> ('T, 'D) rsm" where
  "initSnapshotFetchTimer s =
     activateSnapshotFetchTimer
       (if get_snapshot_timer s = None then s\<lparr>get_snapshot_timer := Some False\<rparr> else s)"

definition startFetchingSnapshot :: "('T, 'D) env \<Rightarrow> ('T, 'D) rsm \<Rightarrow> ('T, 'D) rsm" where
  "startFetchingSnapshot e s =
     (if snapshot_store e then initSnapshotFetchTimer s
      else getSnapshotLogTailLSN e s)"

definition start :: "('T, 'D) env \<Rightarrow> ('T, 'D) rsm \<Rightarrow> ('T, 'D) rsm" where
  "start e s =
     (let s1 = s\<lparr>data := makeDefaultState e (version s)\<rparr>;
          s2 = advertiseVersions e IN_MEMORY (version s1) s1;
          s3 = (if snapshot_log_id e = LOGID_INVALID then onBaseSnapshotRetrieved e s2
                else startFetchingSnapshot e s2)
      in s3\<lparr>stopped := False\<rparr>)"


subsection \<open>Snapshots\<close>

definition canFastForward :: "lsn_t \<Rightarrow> ('T, 'D) rsm \<Rightarrow> bool \<times> ('T, 'D) rsm" where
  "canFastForward l s =
     (if fastForwardGracePeriodTimer_active s then (False, s)
      else if allow_fast_forward_up_to s < l
      then (False, s\<lparr>allow_fast_forward_up_to := l, fastForwardGracePeriodTimer_active := True\<rparr>)
      else (True, s))"

text \<open>\<open>deserializeSnapshot\<close> returns 0 and the state, or -1 with \<open>err\<close> set: here
  \<open>Inr\<close> of the state or \<open>Inl\<close> of \<open>err\<close>. \<open>ZSTD_decompress\<close> is \<open>None\<close> where
  \<open>ZSTD_isError\<close> holds of its result.\<close>
definition deserializeSnapshot :: "('T, 'D) env \<Rightarrow> Payload \<Rightarrow> SnapshotAttributes \<Rightarrow> (Status + 'T) \<times> RSMSnapshotHeader" where
  "deserializeSnapshot e pl attrs =
     (let (hsz, header_out) = RSMSnapshotHeader_deserialize e pl
      in if hsz < 0 then (Inl E_BADMSG, header_out)
         else
           (let p = drop (nat hsz) pl
            in if and (flags header_out) (ZSTD_COMPRESSION e) \<noteq> 0
               then
                 (let uncompressed_size = ZSTD_getDecompressedSize e p
                  in case ZSTD_decompress e uncompressed_size p of
                       None \<Rightarrow> (Inl E_BADMSG, header_out)
                     | Some (rv, buf) \<Rightarrow>
                         if rv \<noteq> uncompressed_size then (Inl E_BADMSG, header_out)
                         else (deserializeState e (take uncompressed_size buf)
                                 (base_version header_out) (attr_timestamp attrs), header_out))
               else (deserializeState e p (base_version header_out) (attr_timestamp attrs),
                     header_out)))"

text \<open>The second half of \<open>processSnapshot\<close>, from \<open>if (rv == 0)\<close> on; \<open>ok\<close> is \<open>rv == 0\<close>.\<close>
definition processSnapshot_finish :: "('T, 'D) env \<Rightarrow> bool \<Rightarrow> RSMSnapshotHeader \<Rightarrow> SnapshotAttributes \<Rightarrow> ('T, 'D) rsm \<Rightarrow> ('T, 'D) rsm" where
  "processSnapshot_finish e ok header attrs s =
     (let s1 = (if ok
                then s\<lparr>last_snapshot_byte_offset := max (byte_offset header) (last_snapshot_byte_offset s),
                       last_snapshot_offset := max (offset header) (last_snapshot_offset s)\<rparr>
                else s);
          s2 = (if sync_state s1 = SYNC_SNAPSHOT \<and> attr_base_version attrs \<ge> snapshot_sync s1
                then onBaseSnapshotRetrieved e s1 else s1);
          resume_delta_reading =
            (waiting_for_snapshot s2 \<noteq> LSN_INVALID
             \<and> (version s2 \<ge> waiting_for_snapshot s2
                \<or> last_snapshot_last_read_ptr s2 \<ge> waiting_for_snapshot s2));
          s3 = (if resume_delta_reading
                then (let s' = s2\<lparr>waiting_for_snapshot := LSN_INVALID,
                                   stallGracePeriodTimer_active := False\<rparr>
                      in if bumped_stalled_stat s'
                         then (emit [Stat_decr_stalled] s')\<lparr>bumped_stalled_stat := False\<rparr>
                         else s')
                else s2);
          s4 = discardSkippedPendingDeltas s3;
          s5 = s4\<lparr>fastForwardGracePeriodTimer_active := False\<rparr>
      in if resume_delta_reading then emit [ResumeReadStream (delta_log_rsid s5)] s5 else s5)"

definition processSnapshot :: "('T, 'D) env \<Rightarrow> Payload \<Rightarrow> SnapshotAttributes \<Rightarrow> ('T, 'D) rsm \<Rightarrow> bool \<times> ('T, 'D) rsm" where
  "processSnapshot e pl attrs s =
     (let (r, header) = deserializeSnapshot e pl attrs
      in case r of
           Inl er \<Rightarrow>
             (let s1 = emit [Log_critical ''Could not deserialize snapshot''] s
              in if \<not> can_skip_bad_snapshot e then (False, s1)
                 else (True, processSnapshot_finish e False header attrs s1))
         | Inr d \<Rightarrow>
             if base_version header > version s
             then
               (let (can, s1) =
                      (if sync_state s = TAILING \<and> waiting_for_snapshot s = LSN_INVALID
                       then canFastForward (base_version header) s else (True, s))
                in if \<not> can then (False, s1)
                   else
                     (let s2 = s1\<lparr>data := d,
                                   version := base_version header,
                                   last_snapshot_version := base_version header,
                                   last_snapshot_last_read_ptr :=
                                     (if format_version header \<ge> CONTAINS_DELTA_LOG_READ_PTR_AND_LENGTH e
                                      then delta_log_read_ptr header else LSN_INVALID),
                                   delta_log_byte_offset := byte_offset header,
                                   delta_log_offset := offset header,
                                   snapshot_log_timestamp := attr_timestamp attrs\<rparr>;
                          s3 = advertiseVersions e IN_MEMORY (version s2) s2;
                          s4 = (if sync_state s3 = TAILING \<or> deliver_while_replaying e
                                then notifySubscribers e None s3 else s3)
                      in (True, processSnapshot_finish e True header attrs s4)))
             else if format_version header \<ge> CONTAINS_DELTA_LOG_READ_PTR_AND_LENGTH e
                     \<and> delta_log_read_ptr header > last_snapshot_last_read_ptr s
             then (True, processSnapshot_finish e True header attrs
                           (s\<lparr>last_snapshot_last_read_ptr := delta_log_read_ptr header,
                              delta_log_byte_offset := byte_offset header,
                              delta_log_offset := offset header,
                              snapshot_log_timestamp := attr_timestamp attrs\<rparr>))
             else (True, processSnapshot_finish e True header attrs s))"

subsection \<open>Deltas\<close>

definition deserializeDeltaHeader :: "('T, 'D) env \<Rightarrow> Payload \<Rightarrow> DeltaHeader \<Rightarrow> bool \<times> DeltaHeader" where
  "deserializeDeltaHeader e pl header =
     (if length pl \<ge> MIN_DELTA_HEADER_SZ e
      then
        (let h1 = memcpy_header header pl (MIN_DELTA_HEADER_SZ e);
             hsz = unat (header_sz h1)
         in if hsz \<le> length pl \<and> hsz \<ge> MIN_DELTA_HEADER_SZ e
            then
              (let c = checksum_32bit e
                         (take (hsz - offsetof_header_sz) (drop offsetof_header_sz pl))
               in if c = checksum h1
                  then (True, memcpy_header DeltaHeader_default pl (min hsz sizeof_DeltaHeader))
                  else (False, h1))
            else (False, h1))
      else (False, header))"

text \<open>\<open>deserializeDelta(record, out, header)\<close> returns 0 and the delta, or -1 with \<open>err\<close> as
  the virtual \<open>deserializeDelta(Payload)\<close> left it: \<open>Inr\<close> of the delta or \<open>Inl\<close> of
  \<open>err\<close>.\<close>
definition deserializeDelta :: "('T, 'D) env \<Rightarrow> DataRecord \<Rightarrow> DeltaHeader \<Rightarrow> (Status + 'D) \<times> DeltaHeader" where
  "deserializeDelta e record header =
     (let (use_header, h1) = deserializeDeltaHeader e (payload record) header
      in if use_header
         then (deserializeDelta_virtual e (drop (unat (header_sz h1)) (payload record)), h1)
         else (deserializeDelta_virtual e (payload record), DeltaHeader_default))"

text \<open>The block of \<open>onDeltaRecord\<close> that confirms the pending write whose uuid the delta
  carries.\<close>
definition confirmDelta :: "DeltaHeader \<Rightarrow> Status \<Rightarrow> lsn_t \<Rightarrow> string \<Rightarrow> ('T, 'D) rsm \<Rightarrow> ('T, 'D) rsm" where
  "confirmDelta header st l failure_reason s =
     (if \<not> is_nil (uuid header)
      then
        (case pending_confirmation_by_uuid s (uuid header) of
           None \<Rightarrow> s
         | Some it \<Rightarrow>
             if state_delivery_blocked s then s
             else
               (case node_at it (pending_confirmation s) of
                  None \<Rightarrow> s
                | Some p \<Rightarrow>
                    (emit [Write_cb (cb_p p) st l failure_reason] s)
                      \<lparr>pending_confirmation := erase_node it (pending_confirmation s),
                       pending_confirmation_by_uuid :=
                         (pending_confirmation_by_uuid s)(uuid header := None)\<rparr>))
      else s)"

text \<open>The block of \<open>onDeltaRecord\<close> that decodes the record and applies the delta. It
  yields the status \<open>st\<close>, the failure reason, the delta (\<open>None\<close> for the null pointer)
  and the header. The local \<open>DeltaHeader header\<close> is not initialised; \<open>deserializeDelta\<close>
  overwrites it whatever it held.\<close>
definition applyDeltaRecord :: "('T, 'D) env \<Rightarrow> DataRecord \<Rightarrow> ('T, 'D) rsm \<Rightarrow> (Status \<times> string \<times> 'D option \<times> DeltaHeader) \<times> ('T, 'D) rsm" where
  "applyDeltaRecord e record s =
     (let (r, header) = deserializeDelta e record DeltaHeader_default
      in case r of
           Inl er \<Rightarrow> ((er, [], None, header), s)
         | Inr delta \<Rightarrow>
             (let (d, rv, er, reason) =
                    applyDelta e delta (data s) (lsn record) (timestamp record);
                  s' = (emit [Call_applyDelta delta (data s) (lsn record) (timestamp record)] s)
                         \<lparr>data := d\<rparr>
              in if rv \<noteq> 0 then ((er, reason, Some delta, header), s')
                 else ((E_OK, reason, Some delta, header), s'\<lparr>version := lsn record\<rparr>)))"

text \<open>The rest of \<open>onDeltaRecord\<close>, from the update of the counters on.\<close>
definition onDeltaRecord_finish :: "('T, 'D) env \<Rightarrow> DataRecord \<Rightarrow> Status \<Rightarrow> string \<Rightarrow> 'D option \<Rightarrow> DeltaHeader \<Rightarrow> ('T, 'D) rsm \<Rightarrow> ('T, 'D) rsm" where
  "onDeltaRecord_finish e record st failure_reason delta header s2 =
     (let s3 = s2\<lparr>delta_log_byte_offset :=
                    delta_log_byte_offset s2 + of_nat (length (payload record)),
                  delta_log_offset := delta_log_offset s2 + 1\<rparr>;
          s4 = confirmDelta header st (lsn record) failure_reason s3;
          s5 = discardSkippedPendingDeltas s4;
          s6 = (if st = E_OK \<and> (sync_state s5 = TAILING \<or> deliver_while_replaying e)
                then notifySubscribers e delta s5
                else s5)
      in if sync_state s6 = SYNC_DELTAS \<and> lsn record \<ge> delta_sync s6
         then onReachedDeltaLogTailLSN e s6 else s6)"

definition onDeltaRecord :: "('T, 'D) env \<Rightarrow> DataRecord \<Rightarrow> ('T, 'D) rsm \<Rightarrow> bool \<times> ('T, 'D) rsm" where
  "onDeltaRecord e record s =
     (if waiting_for_snapshot s \<noteq> LSN_INVALID then (False, s)
      else
        (let s1 = s\<lparr>delta_read_ptr := lsn record\<rparr>
         in if lsn record \<le> version s1 \<or> lsn record \<le> last_snapshot_last_read_ptr s1
            then (True, s1)
            else
              (let ((st, failure_reason, delta, header), s2) = applyDeltaRecord e record s1
               in (True, onDeltaRecord_finish e record st failure_reason delta header s2))))"

definition activateStallGracePeriod :: "('T, 'D) rsm \<Rightarrow> ('T, 'D) rsm" where
  "activateStallGracePeriod s = s\<lparr>stallGracePeriodTimer_active := True\<rparr>"

definition onDeltaGap :: "('T, 'D) env \<Rightarrow> GapRecord \<Rightarrow> ('T, 'D) rsm \<Rightarrow> bool \<times> ('T, 'D) rsm" where
  "onDeltaGap e gap s =
     (if waiting_for_snapshot s \<noteq> LSN_INVALID then (False, s)
      else
        (let s1 = s\<lparr>delta_read_ptr := hi gap\<rparr>
         in if hi gap \<le> version s1 \<or> hi gap \<le> last_snapshot_last_read_ptr s1
            then (True, s1)
            else
              (let s2 =
                     (if snapshot_log_id e = LOGID_INVALID
                      then
                        (if gap_type gap = GAP_DATALOSS
                         then emit [Log_critical ''Receiving a DATALOSS gap''] s1
                         else if gap_type gap = GAP_TRIM
                         then
                           (let sa = s1\<lparr>version := hi gap\<rparr>;
                                sb = sa\<lparr>data := makeDefaultState e (version sa)\<rparr>
                            in if sync_state sb = TAILING \<or> deliver_while_replaying e
                               then notifySubscribers e None sb else sb)
                         else s1)
                      else
                        (let skipping_data =
                               ((gap_type gap = GAP_DATALOSS \<and> stall_if_data_loss e)
                                \<or> (gap_type gap = GAP_TRIM \<and> version s1 \<noteq> LSN_OLDEST))
                         in if skipping_data
                            then activateSnapshotFetchTimer
                                   (activateStallGracePeriod (s1\<lparr>waiting_for_snapshot := hi gap\<rparr>))
                            else s1))
               in (True, if sync_state s2 = SYNC_DELTAS \<and> hi gap \<ge> delta_sync s2
                         then onReachedDeltaLogTailLSN e s2 else s2))))"


subsection \<open>Writing deltas\<close>

definition createDeltaPayload :: "('T, 'D) env \<Rightarrow> Payload \<Rightarrow> DeltaHeader \<Rightarrow> Payload" where
  "createDeltaPayload e user_payload header =
     (if \<not> write_delta_header e then user_payload
      else
        (let h1 = header\<lparr>header_sz := of_nat sizeof_DeltaHeader\<rparr>;
             c = checksum_32bit e
                   (take (sizeof_DeltaHeader - offsetof_header_sz)
                      (drop offsetof_header_sz (header_bytes h1)));
             h2 = h1\<lparr>checksum := c\<rparr>
         in header_bytes h2 @ user_payload))"

text \<open>\<open>writeDelta\<close> from \<open>if (base_version.has_value())\<close> on.\<close>
definition writeDelta_submit :: "('T, 'D) env \<Rightarrow> Payload \<Rightarrow> callback \<Rightarrow> WriteMode \<Rightarrow> lsn_t option \<Rightarrow> milliseconds option \<Rightarrow> ('T, 'D) rsm \<Rightarrow> ('T, 'D) rsm" where
  "writeDelta_submit e pl cb mode base_ver timeout s =
     (if (case base_ver of None \<Rightarrow> False | Some b \<Rightarrow> b < version s)
      then emit [Write_cb cb E_STALE LSN_INVALID ''Cannot perform operation: Version conflict!''] s
      else
        (let header = DeltaHeader_default\<lparr>uuid := uuid_gen e (uuid_gen_calls s)\<rparr>;
             s1 = s\<lparr>uuid_gen_calls := Suc (uuid_gen_calls s), last_uuid := uuid header\<rparr>;
             buf = createDeltaPayload e pl header;
             s2 = (if mode = CONFIRM_APPLIED
                   then s1\<lparr>pending_confirmation :=
                              pending_confirmation s1 @
                                [(next_iterator s1,
                                  \<lparr>uuid_p = uuid header, lsn_p = LSN_INVALID, cb_p = cb,
                                   timeout_p = (case timeout of None \<Rightarrow> confirm_timeout e | Some t \<Rightarrow> t),
                                   timer_p = False\<rparr>)],
                            pending_confirmation_by_uuid :=
                              (pending_confirmation_by_uuid s1)(uuid header \<mapsto> next_iterator s1),
                            next_iterator := Suc (next_iterator s1)\<rparr>
                   else s1);
             s3 = s2\<lparr>delta_appends_in_flight := delta_appends_in_flight s2 + 1\<rparr>
         in emit [PostAppendRequest (delta_log_id e) buf
                    (case timeout of None \<Rightarrow> delta_append_timeout e | Some t \<Rightarrow> t)
                    (Append_cb mode (uuid header) cb)] s3))"

definition writeDelta :: "('T, 'D) env \<Rightarrow> Payload \<Rightarrow> callback \<Rightarrow> WriteMode \<Rightarrow> lsn_t option \<Rightarrow> milliseconds option \<Rightarrow> ('T, 'D) rsm \<Rightarrow> ('T, 'D) rsm" where
  "writeDelta e pl cb mode base_ver timeout s =
     (if mode = CONFIRM_APPLIED
      then
        (if sync_state s \<noteq> TAILING
         then emit [Write_cb cb E_AGAIN LSN_INVALID ''Operation is now allowed!''] s
         else if \<not> delta_read_stream_is_healthy s
         then emit [Write_cb cb E_AGAIN LSN_INVALID ''Cannot perform operation: Please try again!''] s
         else if length (pending_confirmation s) > max_pending_confirmation e
         then emit [Write_cb cb E_NOBUFS LSN_INVALID
                      ''Cannot perform operation: Too many messages queued already.''] s
         else if \<not> write_delta_header e
         then writeDelta_submit e pl cb mode base_ver timeout
                (emit [Write_cb cb E_NOTSUPPORTED LSN_INVALID ''Operation Not Supported''] s)
         else writeDelta_submit e pl cb mode base_ver timeout s)
      else writeDelta_submit e pl cb mode base_ver timeout s)"


subsection \<open>Taking snapshots\<close>

definition createSnapshotPayload :: "('T, 'D) env \<Rightarrow> 'T \<Rightarrow> lsn_t \<Rightarrow> bool \<Rightarrow> ('T, 'D) rsm \<Rightarrow> Payload" where
  "createSnapshotPayload e d ver include_read_ptr s =
     (let header = \<lparr>format_version = (if include_read_ptr
                                       then CONTAINS_DELTA_LOG_READ_PTR_AND_LENGTH e
                                       else BASE_VERSION e),
                    flags = 0,
                    byte_offset = delta_log_byte_offset s,
                    offset = delta_log_offset s,
                    base_version = ver,
                    delta_log_read_ptr = delta_read_ptr s\<rparr>;
          body = serializeState e d;
          buf = RSMSnapshotHeader_serialize e header @ body
      in if snapshot_compression e
         then
           (case ZSTD_compress e body of
              None \<Rightarrow> []
            | Some compressed \<Rightarrow>
                RSMSnapshotHeader_serialize e
                  (header\<lparr>flags := or (flags header) (ZSTD_COMPRESSION e)\<rparr>) @ compressed)
         else buf)"

definition cb_or_noop :: "callback option \<Rightarrow> Status \<Rightarrow> ('T, 'D) rsm \<Rightarrow> ('T, 'D) rsm" where
  "cb_or_noop cb st s = (case cb of None \<Rightarrow> s | Some f \<Rightarrow> emit [Status_cb f st] s)"

text \<open>The lambda \<open>snapshot_cb\<close> posts a request to the worker; \<open>snapshot_cb_request\<close> is the
  body of that request, run later if the state machine still exists.\<close>
definition snapshot_cb :: "snapshot_closure \<Rightarrow> Status \<Rightarrow> lsn_t \<Rightarrow> ('T, 'D) rsm \<Rightarrow> ('T, 'D) rsm" where
  "snapshot_cb c st l s = emit [PostCallbackRequest st l c] s"

definition snapshot_cb_request :: "('T, 'D) env \<Rightarrow> snapshot_closure \<Rightarrow> Status \<Rightarrow> lsn_t \<Rightarrow> ('T, 'D) rsm \<Rightarrow> ('T, 'D) rsm" where
  "snapshot_cb_request e c st l s =
     (let s1 =
            (if st = E_OK
             then
               (let sa = s\<lparr>last_snapshot_byte_offset :=
                              max (cap_byte_offset c) (last_snapshot_byte_offset s),
                            last_snapshot_offset := max (cap_offset c) (last_snapshot_offset s),
                            last_written_version := l,
                            last_snapshot_last_read_ptr := cap_delta_read_ptr c\<rparr>
                in emit [Call_onSnapshotCreated st (cap_payload_size c)]
                     (advertiseVersions e DURABLE (last_written_version sa) sa))
             else if st = E_UPTODATE then advertiseVersions e DURABLE l s
             else advertiseVersions e DURABLE LSN_INVALID (s\<lparr>last_written_version := LSN_INVALID\<rparr>));
          s2 = s1\<lparr>snapshot_in_flight := False\<rparr>
      in cb_or_noop (cap_cb c) st s2)"

definition snapshot :: "('T, 'D) env \<Rightarrow> callback option \<Rightarrow> ('T, 'D) rsm \<Rightarrow> ('T, 'D) rsm" where
  "snapshot e cb s =
     (if snapshot_log_id e = LOGID_INVALID then cb_or_noop cb E_NOTSUPPORTED s
      else if snapshot_in_flight s then cb_or_noop cb E_INPROGRESS s
      else if sync_state s \<noteq> TAILING then cb_or_noop cb E_AGAIN s
      else
        (let include_read_ptr = rsm_include_read_pointer_in_snapshot e
         in if include_read_ptr \<and> delta_read_ptr s < version s
            then cb_or_noop cb E_FAILED (emit [Log_critical ''RSM is in inconsistent state''] s)
            else
              (let pl = createSnapshotPayload e (data s) (version s) include_read_ptr s;
                   c = Snapshot_cb (delta_log_byte_offset s) (delta_log_offset s)
                         (delta_read_ptr s) (length pl) cb;
                   writing_snapshot =
                     (\<not> snapshot_store e \<or> version s > last_written_version s
                      \<or> (include_read_ptr \<and> last_snapshot_last_read_ptr s < delta_read_ptr s))
               in if \<not> writing_snapshot then snapshot_cb c E_UPTODATE (last_written_version s) s
                  else if snapshot_store e
                  then emit [WriteSnapshot (version s) pl c] (s\<lparr>snapshot_in_flight := True\<rparr>)
                  else (emit [PostSnapshotAppend (snapshot_log_id e) pl (snapshot_append_timeout e) c] s)
                         \<lparr>snapshot_in_flight := True\<rparr>)))"


subsection \<open>An instance: a counter\<close>

text \<open>
  The state is a counter and a delta an increment; a delta payload decodes to its
  length, a snapshot payload is three bytes (format version, base version, delta read
  pointer), and the checksum of a slice is the sum of its bytes. The instance is used to
  run the functions on concrete inputs.
\<close>

definition counter_env :: "(nat, nat) env" where
  "counter_env =
     \<lparr>makeDefaultState = (\<lambda>v. 0),
      deserializeState = (\<lambda>p v ts. Inr (length p)),
      deserializeDelta_virtual = (\<lambda>p. if p = [] then Inl E_BADMSG else Inr (length p)),
      applyDelta = (\<lambda>d t l ts. if d < 100 then (t + d, 0, E_OK, []) else (t, - 1, E_FAILED, ''too big'')),
      serializeState = (\<lambda>t. replicate t 0),
      checksum_32bit = (\<lambda>p. foldr (\<lambda>b a. ucast b + a) p 0),
      uuid_gen = (\<lambda>n. [0, 0, 0, 0, 0, 0, 0, 0, 0, 0, 0, 0, 0, 0, 0, of_nat (Suc n)]),
      issueReadStreamID = (\<lambda>n. of_nat (Suc n)),
      RSMSnapshotHeader_deserialize =
        (\<lambda>p. if length p < 3
             then (- 1, \<lparr>format_version = 0, flags = 0, byte_offset = 0, offset = 0,
                         base_version = 0, delta_log_read_ptr = 0\<rparr>)
             else (3, \<lparr>format_version = ucast (p ! 0), flags = 0, byte_offset = 0, offset = 0,
                       base_version = ucast (p ! 1), delta_log_read_ptr = ucast (p ! 2)\<rparr>)),
      RSMSnapshotHeader_serialize =
        (\<lambda>h. [ucast (format_version h), ucast (base_version h), ucast (delta_log_read_ptr h)]),
      ZSTD_getDecompressedSize = length,
      ZSTD_decompress = (\<lambda>n p. Some (length p, p)),
      ZSTD_compress = Some,
      MIN_DELTA_HEADER_SZ = 8,
      CONTAINS_DELTA_LOG_READ_PTR_AND_LENGTH = 1,
      BASE_VERSION = 0,
      ZSTD_COMPRESSION = 1,
      delta_log_id = 1,
      snapshot_log_id = 2,
      snapshot_store = False,
      server = True,
      can_skip_bad_snapshot = False,
      deliver_while_replaying = False,
      stop_at_tail = False,
      stall_if_data_loss = True,
      write_delta_header = True,
      snapshot_compression = False,
      rsm_include_read_pointer_in_snapshot = True,
      max_pending_confirmation = 4,
      confirm_timeout = 5000,
      delta_append_timeout = 5000,
      snapshot_append_timeout = 5000\<rparr>"

text \<open>A counter machine that tails its delta log at version 10, with one subscriber.\<close>
definition counter_rsm :: "(nat, nat) rsm" where
  "counter_rsm =
     \<lparr>data = 7,
      version = 10,
      last_snapshot_version = 5,
      last_snapshot_last_read_ptr = 6,
      delta_read_ptr = 10,
      delta_log_byte_offset = 0,
      delta_log_offset = 0,
      last_snapshot_byte_offset = 0,
      last_snapshot_offset = 0,
      snapshot_log_timestamp = 0,
      snapshot_sync = 5,
      delta_sync = 10,
      waiting_for_snapshot = LSN_INVALID,
      sync_state = TAILING,
      pending_confirmation = [],
      pending_confirmation_by_uuid = Map.empty,
      next_iterator = 0,
      last_written_version = LSN_INVALID,
      snapshot_in_flight = False,
      subscribers = [0],
      state_delivery_blocked = False,
      latest_published_version = Some 10,
      allow_fast_forward_up_to = LSN_INVALID,
      bumped_stalled_stat = False,
      delta_read_stream_is_healthy = True,
      delta_appends_in_flight = 0,
      stopped = False,
      last_uuid = nil_uuid,
      uuid_gen_calls = 0,
      delta_log_rsid = 1,
      read_stream_ids_issued = 1,
      fastForwardGracePeriodTimer_active = False,
      stallGracePeriodTimer_active = False,
      snapshotting_timer_active = True,
      get_snapshot_timer = None,
      read_stream_deletion_timer_assigned = False,
      effects = []\<rparr>"

text \<open>A pending confirmation with the given iterator handle, last uuid byte, LSN and
  callback.\<close>
definition pending_entry :: "nat \<Rightarrow> byte \<Rightarrow> lsn_t \<Rightarrow> callback \<Rightarrow> nat \<times> DeltaPendingConfirmation" where
  "pending_entry it u l cb =
     (it, \<lparr>uuid_p = [0, 0, 0, 0, 0, 0, 0, 0, 0, 0, 0, 0, 0, 0, 0, u], lsn_p = l, cb_p = cb, timeout_p = 5000,
           timer_p = (l \<noteq> LSN_INVALID)\<rparr>)"


text \<open>A frame of the counter instance: the checksum is 25, the declared header size 24,
  the uuid ends in 1 and the body is three bytes; and the same frame with the checksum
  tampered.\<close>
definition framed_delta :: Payload where
  "framed_delta = [25, 0, 0, 0, 24, 0, 0, 0] @ [0, 0, 0, 0, 0, 0, 0, 0, 0, 0, 0, 0, 0, 0, 0] @ [1] @ [9, 9, 9]"

definition tampered_delta :: Payload where
  "tampered_delta = [26, 0, 0, 0, 24, 0, 0, 0] @ [0, 0, 0, 0, 0, 0, 0, 0, 0, 0, 0, 0, 0, 0, 0] @ [1] @ [9, 9, 9]"



definition framed_record :: DataRecord where
  "framed_record = \<lparr>lsn = 11, timestamp = 0, payload = framed_delta\<rparr>"
subsection \<open>Notions used in the properties\<close>

text \<open>An entry that \<open>discardSkippedPendingDeltas\<close> resolves: its append has completed, at
  an LSN that the state already covers.\<close>
definition skipped :: "lsn_t \<Rightarrow> nat \<times> DeltaPendingConfirmation \<Rightarrow> bool" where
  "skipped v = (\<lambda>n. lsn_p (snd n) \<noteq> LSN_INVALID \<and> lsn_p (snd n) \<le> v)"

definition cannot_confirm :: "nat \<times> DeltaPendingConfirmation \<Rightarrow> ('T, 'D) effect" where
  "cannot_confirm = (\<lambda>n. Write_cb (cb_p (snd n)) E_FAILED (lsn_p (snd n)) ''Cannot confirm operation'')"

text \<open>The effects that \<open>s'\<close> has added to those of \<open>s\<close>.\<close>
definition new_effects :: "('T, 'D) rsm \<Rightarrow> ('T, 'D) rsm \<Rightarrow> ('T, 'D) effect list" where
  "new_effects s s' = drop (length (effects s)) (effects s')"


text \<open>The header size and the checksum that a payload declares in its first eight
  bytes.\<close>
definition declared_header_sz :: "Payload \<Rightarrow> nat" where
  "declared_header_sz pl = unat (bytes_u32 (take 4 (drop offsetof_header_sz pl)))"

definition stored_checksum :: "Payload \<Rightarrow> 32 word" where
  "stored_checksum pl = bytes_u32 (take 4 pl)"


text \<open>Everything but the trace of effects is unchanged.\<close>
definition same_core :: "('T, 'D) rsm \<Rightarrow> ('T, 'D) rsm \<Rightarrow> bool" where
  "same_core s s' = (s'\<lparr>effects := effects s\<rparr> = s)"

text \<open>The call of the optional callback of \<open>snapshot\<close>.\<close>
definition status_cb_effects :: "callback option \<Rightarrow> Status \<Rightarrow> ('T, 'D) effect list" where
  "status_cb_effects cb st = (case cb of None \<Rightarrow> [] | Some f \<Rightarrow> [Status_cb f st])"

text \<open>The closure that \<open>snapshot\<close> builds in the state \<open>s\<close>.\<close>
definition snapshot_closure_of :: "('T, 'D) env \<Rightarrow> callback option \<Rightarrow> ('T, 'D) rsm \<Rightarrow> snapshot_closure" where
  "snapshot_closure_of e cb s =
     Snapshot_cb (delta_log_byte_offset s) (delta_log_offset s) (delta_read_ptr s)
       (length (createSnapshotPayload e (data s) (version s)
                  (rsm_include_read_pointer_in_snapshot e) s)) cb"

text \<open>The calls of write callbacks among a list of effects.\<close>
fun is_Write_cb :: "('T, 'D) effect \<Rightarrow> bool" where
  "is_Write_cb (Write_cb cb st l reason) = True"
| "is_Write_cb x = False"

definition write_cb_calls :: "('T, 'D) effect list \<Rightarrow> ('T, 'D) effect list" where
  "write_cb_calls es = filter is_Write_cb es"

text \<open>The delta of a record decodes and \<open>applyDelta\<close> returns 0 on it.\<close>
definition delta_applies :: "('T, 'D) env \<Rightarrow> DataRecord \<Rightarrow> ('T, 'D) rsm \<Rightarrow> bool" where
  "delta_applies e r s =
     (case fst (deserializeDelta e r DeltaHeader_default) of
        Inl er \<Rightarrow> False
      | Inr d \<Rightarrow> fst (snd (applyDelta e d (data s) (lsn r) (timestamp r))) = 0)"

text \<open>The inequalities between the three positions.\<close>
definition snapshot_below_version :: "('T, 'D) rsm \<Rightarrow> bool" where
  "snapshot_below_version s = (last_snapshot_version s \<le> version s)"

definition version_below_read_ptr :: "('T, 'D) rsm \<Rightarrow> bool" where
  "version_below_read_ptr s = (version s \<le> delta_read_ptr s)"

text \<open>The calls of \<open>applyDelta\<close> among a list of effects.\<close>
fun is_Call_applyDelta :: "('T, 'D) effect \<Rightarrow> bool" where
  "is_Call_applyDelta (Call_applyDelta d t l ts) = True"
| "is_Call_applyDelta x = False"

definition applyDelta_calls :: "('T, 'D) effect list \<Rightarrow> ('T, 'D) effect list" where
  "applyDelta_calls es = filter is_Call_applyDelta es"

text \<open>What \<open>advertiseVersions\<close> publishes: nothing unless the worker is a server's.\<close>
definition advertised :: "('T, 'D) env \<Rightarrow> RsmVersionType \<Rightarrow> lsn_t \<Rightarrow> ('T, 'D) effect list" where
  "advertised e ty v = (if server e then [AdvertiseVersions ty v] else [])"

subsection \<open>More states of the counter\<close>




text \<open>The counter machine while it replays the delta log, and a snapshot in the new
  format with base version 20 and delta read pointer 25.\<close>
definition replaying_rsm :: "(nat, nat) rsm" where
  "replaying_rsm = counter_rsm\<lparr>sync_state := SYNC_DELTAS, delta_sync := 40\<rparr>"

definition new_snapshot :: Payload where
  "new_snapshot = [1, 20, 25]"
section \<open>Properties\<close>

subsection \<open>What the helper functions change\<close>

lemma discardSkippedPendingDeltas_unfold:
  "discardSkippedPendingDeltas s =
     (case pending_confirmation s of
        [] \<Rightarrow> s
      | front # rest \<Rightarrow>
          if skipped (version s) front
          then discardSkippedPendingDeltas
                 (s\<lparr>effects := effects s @ [cannot_confirm front],
                    pending_confirmation_by_uuid :=
                      (pending_confirmation_by_uuid s)(uuid_p (snd front) := None),
                    pending_confirmation := rest\<rparr>)
          else s)"
  by (subst discardSkippedPendingDeltas.simps)
     (simp add: skipped_def cannot_confirm_def emit_def split: list.splits)

lemma restrict_map_upd_None:
  "m(k := None) |` (- A) = m |` (- insert k A)"
  by (auto simp: restrict_map_def fun_eq_iff)

lemma discardSkippedPendingDeltas_eq:
  "discardSkippedPendingDeltas s =
     s\<lparr>effects := effects s @ map cannot_confirm (takeWhile (skipped (version s)) (pending_confirmation s)),
       pending_confirmation_by_uuid :=
         pending_confirmation_by_uuid s |`
           (- (\<lambda>n. uuid_p (snd n)) ` set (takeWhile (skipped (version s)) (pending_confirmation s))),
       pending_confirmation := dropWhile (skipped (version s)) (pending_confirmation s)\<rparr>"
proof (induction "pending_confirmation s" arbitrary: s)
  case Nil
  then have "pending_confirmation s = []" by simp
  then show ?case
    by (subst discardSkippedPendingDeltas_unfold) (simp add: restrict_map_def)
next
  case (Cons front rest)
  then have p: "pending_confirmation s = front # rest" by simp
  show ?case
  proof (cases "skipped (version s) front")
    case False
    with p show ?thesis
      by (subst discardSkippedPendingDeltas_unfold) (simp add: restrict_map_def)
  next
    case True
    define s' where "s' = s\<lparr>effects := effects s @ [cannot_confirm front],
                    pending_confirmation_by_uuid :=
                      (pending_confirmation_by_uuid s)(uuid_p (snd front) := None),
                    pending_confirmation := rest\<rparr>"
    have r: "rest = pending_confirmation s'" by (simp add: s'_def)
    have "discardSkippedPendingDeltas s = discardSkippedPendingDeltas s'"
      using p True by (subst discardSkippedPendingDeltas_unfold) (simp add: s'_def)
    also have "\<dots> = s'\<lparr>effects := effects s' @ map cannot_confirm (takeWhile (skipped (version s')) (pending_confirmation s')),
         pending_confirmation_by_uuid :=
           pending_confirmation_by_uuid s' |`
             (- (\<lambda>n. uuid_p (snd n)) ` set (takeWhile (skipped (version s')) (pending_confirmation s'))),
         pending_confirmation := dropWhile (skipped (version s')) (pending_confirmation s')\<rparr>"
      by (rule Cons.hyps(1) [OF r])
    also have "\<dots> = s\<lparr>effects := effects s @ map cannot_confirm (takeWhile (skipped (version s)) (pending_confirmation s)),
         pending_confirmation_by_uuid :=
           pending_confirmation_by_uuid s |`
             (- (\<lambda>n. uuid_p (snd n)) ` set (takeWhile (skipped (version s)) (pending_confirmation s))),
         pending_confirmation := dropWhile (skipped (version s)) (pending_confirmation s)\<rparr>"
      using p True by (simp add: s'_def restrict_map_upd_None del: restrict_fun_upd)
    finally show ?thesis .
  qed
qed

lemma new_effects_append [simp]:
  "effects s' = effects s @ es \<Longrightarrow> new_effects s s' = es"
  by (simp add: new_effects_def)

lemma new_effects_same [simp]: "new_effects s s = []"
  by (simp add: new_effects_def)

lemma emit_fields [simp]:
  "effects (emit es s) = effects s @ es"
  "version (emit es s) = version s"
  "data (emit es s) = data s"
  "last_snapshot_version (emit es s) = last_snapshot_version s"
  "last_snapshot_last_read_ptr (emit es s) = last_snapshot_last_read_ptr s"
  "delta_read_ptr (emit es s) = delta_read_ptr s"
  "waiting_for_snapshot (emit es s) = waiting_for_snapshot s"
  "state_delivery_blocked (emit es s) = state_delivery_blocked s"
  "subscribers (emit es s) = subscribers s"
  "sync_state (emit es s) = sync_state s"
  "pending_confirmation (emit es s) = pending_confirmation s"
  "pending_confirmation_by_uuid (emit es s) = pending_confirmation_by_uuid s"
  by (simp_all add: emit_def)

lemma advertised_simps [simp]:
  "write_cb_calls (advertised e ty v) = []"
  "applyDelta_calls (advertised e ty v) = []"
  by (simp_all add: advertised_def write_cb_calls_def applyDelta_calls_def)

lemma notifySubscribers_fields [simp]:
  "version (notifySubscribers e d s) = version s"
  "data (notifySubscribers e d s) = data s"
  "last_snapshot_version (notifySubscribers e d s) = last_snapshot_version s"
  "last_snapshot_last_read_ptr (notifySubscribers e d s) = last_snapshot_last_read_ptr s"
  "delta_read_ptr (notifySubscribers e d s) = delta_read_ptr s"
  "waiting_for_snapshot (notifySubscribers e d s) = waiting_for_snapshot s"
  "state_delivery_blocked (notifySubscribers e d s) = state_delivery_blocked s"
  "subscribers (notifySubscribers e d s) = subscribers s"
  "sync_state (notifySubscribers e d s) = sync_state s"
  "pending_confirmation (notifySubscribers e d s) = pending_confirmation s"
  "pending_confirmation_by_uuid (notifySubscribers e d s) = pending_confirmation_by_uuid s"
  by (simp_all add: notifySubscribers_def advertiseVersions_def)

lemma notifySubscribers_effects:
  "effects (notifySubscribers e d s) =
     effects s @
       (if subscribers s = [] \<or> state_delivery_blocked s then []
        else map (\<lambda>cb. Update_cb cb (data s) d (version s)) (subscribers s)
               @ advertised e IN_MEMORY (version s))"
  by (simp add: notifySubscribers_def advertiseVersions_def advertised_def)

lemma onReachedDeltaLogTailLSN_fields [simp]:
  "version (onReachedDeltaLogTailLSN e s) = version s"
  "data (onReachedDeltaLogTailLSN e s) = data s"
  "last_snapshot_version (onReachedDeltaLogTailLSN e s) = last_snapshot_version s"
  "last_snapshot_last_read_ptr (onReachedDeltaLogTailLSN e s) = last_snapshot_last_read_ptr s"
  "delta_read_ptr (onReachedDeltaLogTailLSN e s) = delta_read_ptr s"
  "waiting_for_snapshot (onReachedDeltaLogTailLSN e s) = waiting_for_snapshot s"
  "state_delivery_blocked (onReachedDeltaLogTailLSN e s) = state_delivery_blocked s"
  "subscribers (onReachedDeltaLogTailLSN e s) = subscribers s"
  "sync_state (onReachedDeltaLogTailLSN e s) = TAILING"
  "pending_confirmation (onReachedDeltaLogTailLSN e s) = pending_confirmation s"
  "pending_confirmation_by_uuid (onReachedDeltaLogTailLSN e s) = pending_confirmation_by_uuid s"
  by (simp_all add: onReachedDeltaLogTailLSN_def scheduleStop_def Let_def)

lemma onReachedDeltaLogTailLSN_effects:
  "effects (onReachedDeltaLogTailLSN e s) =
     effects s @
       (if deliver_while_replaying e \<or> subscribers s = [] \<or> state_delivery_blocked s then []
        else map (\<lambda>cb. Update_cb cb (data s) None (version s)) (subscribers s)
               @ advertised e IN_MEMORY (version s))"
  by (simp add: onReachedDeltaLogTailLSN_def scheduleStop_def Let_def notifySubscribers_effects)

lemma discardSkippedPendingDeltas_fields [simp]:
  "version (discardSkippedPendingDeltas s) = version s"
  "data (discardSkippedPendingDeltas s) = data s"
  "last_snapshot_version (discardSkippedPendingDeltas s) = last_snapshot_version s"
  "last_snapshot_last_read_ptr (discardSkippedPendingDeltas s) = last_snapshot_last_read_ptr s"
  "delta_read_ptr (discardSkippedPendingDeltas s) = delta_read_ptr s"
  "waiting_for_snapshot (discardSkippedPendingDeltas s) = waiting_for_snapshot s"
  "state_delivery_blocked (discardSkippedPendingDeltas s) = state_delivery_blocked s"
  "subscribers (discardSkippedPendingDeltas s) = subscribers s"
  "sync_state (discardSkippedPendingDeltas s) = sync_state s"
  "delta_log_rsid (discardSkippedPendingDeltas s) = delta_log_rsid s"
  by (subst discardSkippedPendingDeltas_eq, simp)+

lemma discardSkippedPendingDeltas_effects:
  "effects (discardSkippedPendingDeltas s) =
     effects s @ map cannot_confirm (takeWhile (skipped (version s)) (pending_confirmation s))"
  by (subst discardSkippedPendingDeltas_eq) simp

lemma discardSkippedPendingDeltas_pending:
  "pending_confirmation (discardSkippedPendingDeltas s) =
     dropWhile (skipped (version s)) (pending_confirmation s)"
  by (subst discardSkippedPendingDeltas_eq) simp

lemma confirmDelta_fields [simp]:
  "version (confirmDelta h st l fr s) = version s"
  "data (confirmDelta h st l fr s) = data s"
  "last_snapshot_version (confirmDelta h st l fr s) = last_snapshot_version s"
  "last_snapshot_last_read_ptr (confirmDelta h st l fr s) = last_snapshot_last_read_ptr s"
  "delta_read_ptr (confirmDelta h st l fr s) = delta_read_ptr s"
  "waiting_for_snapshot (confirmDelta h st l fr s) = waiting_for_snapshot s"
  "state_delivery_blocked (confirmDelta h st l fr s) = state_delivery_blocked s"
  "subscribers (confirmDelta h st l fr s) = subscribers s"
  "sync_state (confirmDelta h st l fr s) = sync_state s"
  by (simp_all add: confirmDelta_def split: option.splits)

lemma confirmDelta_blocked [simp]:
  "state_delivery_blocked s \<Longrightarrow> confirmDelta h st l fr s = s"
  by (simp add: confirmDelta_def split: option.splits)

lemma onBaseSnapshotRetrieved_fields [simp]:
  "version (onBaseSnapshotRetrieved e s) = version s"
  "data (onBaseSnapshotRetrieved e s) = data s"
  "last_snapshot_version (onBaseSnapshotRetrieved e s) = last_snapshot_version s"
  "last_snapshot_last_read_ptr (onBaseSnapshotRetrieved e s) = last_snapshot_last_read_ptr s"
  "delta_read_ptr (onBaseSnapshotRetrieved e s) =
     (if delta_read_ptr s = LSN_INVALID then last_snapshot_last_read_ptr s else delta_read_ptr s)"
  "waiting_for_snapshot (onBaseSnapshotRetrieved e s) = waiting_for_snapshot s"
  "state_delivery_blocked (onBaseSnapshotRetrieved e s) = state_delivery_blocked s"
  "subscribers (onBaseSnapshotRetrieved e s) = subscribers s"
  "sync_state (onBaseSnapshotRetrieved e s) = SYNC_DELTAS"
  "pending_confirmation (onBaseSnapshotRetrieved e s) = pending_confirmation s"
  "pending_confirmation_by_uuid (onBaseSnapshotRetrieved e s) = pending_confirmation_by_uuid s"
  "effects (onBaseSnapshotRetrieved e s) =
     effects s @ advertised e IN_MEMORY (version s)
       @ [Call_gotInitialState (data s), SyncSequencerRequest (delta_log_id e)]"
  by (simp_all add: onBaseSnapshotRetrieved_def getDeltaLogTailLSN_def advertiseVersions_def
        activateGracePeriodForSnapshotting_def Let_def advertised_def)


lemma write_cb_calls_simps [simp]:
  "write_cb_calls [] = []"
  "write_cb_calls (es @ fs) = write_cb_calls es @ write_cb_calls fs"
  "write_cb_calls (map cannot_confirm ns) = map cannot_confirm ns"
  "write_cb_calls (map (\<lambda>cb. Update_cb cb t d v) cbs) = []"
  "write_cb_calls (x # es) = (if is_Write_cb x then x # write_cb_calls es else write_cb_calls es)"
  by (simp_all add: write_cb_calls_def cannot_confirm_def filter_map o_def)

lemma confirmDelta_effects:
  "effects (confirmDelta h st l fr s) =
     effects s @
       (if is_nil (uuid h) \<or> state_delivery_blocked s then []
        else case pending_confirmation_by_uuid s (uuid h) of
               None \<Rightarrow> []
             | Some it \<Rightarrow>
                 (case node_at it (pending_confirmation s) of
                    None \<Rightarrow> []
                  | Some p \<Rightarrow> [Write_cb (cb_p p) st l fr]))"
  by (simp add: confirmDelta_def split: option.splits)

lemma processSnapshot_finish_fields [simp]:
  "version (processSnapshot_finish e ok h a s) = version s"
  "data (processSnapshot_finish e ok h a s) = data s"
  "last_snapshot_version (processSnapshot_finish e ok h a s) = last_snapshot_version s"
  "last_snapshot_last_read_ptr (processSnapshot_finish e ok h a s) = last_snapshot_last_read_ptr s"
  "state_delivery_blocked (processSnapshot_finish e ok h a s) = state_delivery_blocked s"
  "subscribers (processSnapshot_finish e ok h a s) = subscribers s"
  "delta_read_ptr (processSnapshot_finish e ok h a s) =
     (if sync_state s = SYNC_SNAPSHOT \<and> snapshot_sync s \<le> attr_base_version a
         \<and> delta_read_ptr s = LSN_INVALID
      then last_snapshot_last_read_ptr s else delta_read_ptr s)"
  "waiting_for_snapshot (processSnapshot_finish e ok h a s) =
     (if waiting_for_snapshot s \<noteq> LSN_INVALID
         \<and> (waiting_for_snapshot s \<le> version s
            \<or> waiting_for_snapshot s \<le> last_snapshot_last_read_ptr s)
      then LSN_INVALID else waiting_for_snapshot s)"
  by (auto simp: processSnapshot_finish_def Let_def)

lemma processSnapshot_finish_pending:
  "pending_confirmation (processSnapshot_finish e ok h a s) =
     dropWhile (skipped (version s)) (pending_confirmation s)"
  by (simp add: processSnapshot_finish_def Let_def discardSkippedPendingDeltas_pending)

lemma onBaseSnapshotRetrieved_more [simp]:
  "bumped_stalled_stat (onBaseSnapshotRetrieved e s) = bumped_stalled_stat s"
  "delta_log_rsid (onBaseSnapshotRetrieved e s) = delta_log_rsid s"
  by (simp_all add: onBaseSnapshotRetrieved_def getDeltaLogTailLSN_def advertiseVersions_def
        activateGracePeriodForSnapshotting_def Let_def emit_def)



lemma onGotDeltaLogTailLSN_fields [simp]:
  "version (onGotDeltaLogTailLSN e l s) = version s"
  "data (onGotDeltaLogTailLSN e l s) = data s"
  "last_snapshot_version (onGotDeltaLogTailLSN e l s) = last_snapshot_version s"
  "last_snapshot_last_read_ptr (onGotDeltaLogTailLSN e l s) = last_snapshot_last_read_ptr s"
  "delta_read_ptr (onGotDeltaLogTailLSN e l s) = delta_read_ptr s"
  "waiting_for_snapshot (onGotDeltaLogTailLSN e l s) = waiting_for_snapshot s"
  by (simp_all add: onGotDeltaLogTailLSN_def Let_def)

lemma start_fields [simp]:
  "version (start e s) = version s"
  "last_snapshot_version (start e s) = last_snapshot_version s"
  "last_snapshot_last_read_ptr (start e s) = last_snapshot_last_read_ptr s"
  "waiting_for_snapshot (start e s) = waiting_for_snapshot s"
  "delta_read_ptr (start e s) =
     (if snapshot_log_id e = LOGID_INVALID \<and> delta_read_ptr s = LSN_INVALID
      then last_snapshot_last_read_ptr s else delta_read_ptr s)"
  by (simp_all add: start_def Let_def startFetchingSnapshot_def initSnapshotFetchTimer_def
        activateSnapshotFetchTimer_def getSnapshotLogTailLSN_def advertiseVersions_def
        split: option.splits)

lemma le_LSN_INVALID [simp]: "x \<le> LSN_INVALID \<longleftrightarrow> x = LSN_INVALID"
  by (simp add: LSN_INVALID_def)

lemma advertiseVersions_fields [simp]:
  "effects (advertiseVersions e ty v s) = effects s @ advertised e ty v"
  "version (advertiseVersions e ty v s) = version s"
  "data (advertiseVersions e ty v s) = data s"
  "last_snapshot_version (advertiseVersions e ty v s) = last_snapshot_version s"
  "last_snapshot_last_read_ptr (advertiseVersions e ty v s) = last_snapshot_last_read_ptr s"
  "delta_read_ptr (advertiseVersions e ty v s) = delta_read_ptr s"
  "waiting_for_snapshot (advertiseVersions e ty v s) = waiting_for_snapshot s"
  "state_delivery_blocked (advertiseVersions e ty v s) = state_delivery_blocked s"
  "subscribers (advertiseVersions e ty v s) = subscribers s"
  "sync_state (advertiseVersions e ty v s) = sync_state s"
  "pending_confirmation (advertiseVersions e ty v s) = pending_confirmation s"
  "pending_confirmation_by_uuid (advertiseVersions e ty v s) = pending_confirmation_by_uuid s"
  by (simp_all add: advertiseVersions_def advertised_def)

lemma canFastForward_fields [simp]:
  "version (snd (canFastForward l s)) = version s"
  "data (snd (canFastForward l s)) = data s"
  "last_snapshot_version (snd (canFastForward l s)) = last_snapshot_version s"
  "last_snapshot_last_read_ptr (snd (canFastForward l s)) = last_snapshot_last_read_ptr s"
  "delta_read_ptr (snd (canFastForward l s)) = delta_read_ptr s"
  "waiting_for_snapshot (snd (canFastForward l s)) = waiting_for_snapshot s"
  "state_delivery_blocked (snd (canFastForward l s)) = state_delivery_blocked s"
  "subscribers (snd (canFastForward l s)) = subscribers s"
  "sync_state (snd (canFastForward l s)) = sync_state s"
  "pending_confirmation (snd (canFastForward l s)) = pending_confirmation s"
  "effects (snd (canFastForward l s)) = effects s"
  by (simp_all add: canFastForward_def)

lemma canFastForward_True: "fst (canFastForward l s) \<Longrightarrow> snd (canFastForward l s) = s"
  by (cases "fastForwardGracePeriodTimer_active s"; cases "allow_fast_forward_up_to s < l")
     (simp_all add: canFastForward_def)

text \<open>The three ways through \<open>processSnapshot\<close>: the snapshot does not decode, it decodes
  and is newer than the state, it decodes and is not newer. In the last two \<open>t\<close> is the
  state on which the second half of the function runs.\<close>
lemma processSnapshot_bad:
  "deserializeSnapshot e pl a = (Inl er, hdr) \<Longrightarrow>
   processSnapshot e pl a s =
     (if \<not> can_skip_bad_snapshot e
      then (False, emit [Log_critical ''Could not deserialize snapshot''] s)
      else (True, processSnapshot_finish e False hdr a
                    (emit [Log_critical ''Could not deserialize snapshot''] s)))"
  by (simp add: processSnapshot_def Let_def)

lemma processSnapshot_gated:
  "deserializeSnapshot e pl a = (Inr d, hdr) \<Longrightarrow> version s < base_version hdr \<Longrightarrow>
   sync_state s = TAILING \<Longrightarrow> waiting_for_snapshot s = LSN_INVALID \<Longrightarrow>
   \<not> fst (canFastForward (base_version hdr) s) \<Longrightarrow>
   processSnapshot e pl a s = (False, snd (canFastForward (base_version hdr) s))"
  by (cases "canFastForward (base_version hdr) s") (simp add: processSnapshot_def Let_def)

lemma processSnapshot_newer:
  assumes d: "deserializeSnapshot e pl a = (Inr d, hdr)"
    and n: "version s < base_version hdr"
    and g: "sync_state s = TAILING \<and> waiting_for_snapshot s = LSN_INVALID
              \<longrightarrow> fst (canFastForward (base_version hdr) s)"
  shows "\<exists>t es. processSnapshot e pl a s = (True, processSnapshot_finish e True hdr a t)
       \<and> version t = base_version hdr \<and> last_snapshot_version t = base_version hdr
       \<and> last_snapshot_last_read_ptr t =
           (if CONTAINS_DELTA_LOG_READ_PTR_AND_LENGTH e \<le> format_version hdr
            then delta_log_read_ptr hdr else LSN_INVALID)
       \<and> delta_read_ptr t = delta_read_ptr s
       \<and> waiting_for_snapshot t = waiting_for_snapshot s
       \<and> sync_state t = sync_state s
       \<and> pending_confirmation t = pending_confirmation s
       \<and> state_delivery_blocked t = state_delivery_blocked s
       \<and> effects t = effects s @ es \<and> write_cb_calls es = []"
proof -
  define s2 where "s2 = s\<lparr>data := d,
                          version := base_version hdr,
                          last_snapshot_version := base_version hdr,
                          last_snapshot_last_read_ptr :=
                            (if format_version hdr \<ge> CONTAINS_DELTA_LOG_READ_PTR_AND_LENGTH e
                             then delta_log_read_ptr hdr else LSN_INVALID),
                          delta_log_byte_offset := byte_offset hdr,
                          delta_log_offset := offset hdr,
                          snapshot_log_timestamp := attr_timestamp a\<rparr>"
  define s3 where "s3 = advertiseVersions e IN_MEMORY (version s2) s2"
  define t where "t = (if sync_state s3 = TAILING \<or> deliver_while_replaying e
                       then notifySubscribers e None s3 else s3)"
  have gate: "(if sync_state s = TAILING \<and> waiting_for_snapshot s = LSN_INVALID
               then canFastForward (base_version hdr) s else (True, s)) = (True, s)"
    using g canFastForward_True [of "base_version hdr" s]
    by (cases "canFastForward (base_version hdr) s") auto
  have p: "processSnapshot e pl a s = (True, processSnapshot_finish e True hdr a t)"
    using n by (simp add: processSnapshot_def d gate t_def s3_def s2_def)
  have f: "version t = base_version hdr" "last_snapshot_version t = base_version hdr"
    "last_snapshot_last_read_ptr t =
           (if CONTAINS_DELTA_LOG_READ_PTR_AND_LENGTH e \<le> format_version hdr
            then delta_log_read_ptr hdr else LSN_INVALID)"
    "delta_read_ptr t = delta_read_ptr s" "waiting_for_snapshot t = waiting_for_snapshot s"
    "sync_state t = sync_state s" "pending_confirmation t = pending_confirmation s"
    "state_delivery_blocked t = state_delivery_blocked s"
    by (simp_all add: t_def s3_def s2_def)
  have "effects s3 = effects s @ advertised e IN_MEMORY (base_version hdr)"
    by (simp add: s3_def s2_def)
  then have "\<exists>es. effects t = effects s @ es \<and> write_cb_calls es = []"
    by (simp add: t_def notifySubscribers_effects)
  with p f show ?thesis by blast
qed

lemma processSnapshot_not_newer:
  assumes d: "deserializeSnapshot e pl a = (Inr d, hdr)"
    and n: "\<not> version s < base_version hdr"
  shows "\<exists>t. processSnapshot e pl a s = (True, processSnapshot_finish e True hdr a t)
       \<and> version t = version s \<and> last_snapshot_version t = last_snapshot_version s
       \<and> last_snapshot_last_read_ptr t =
           (if CONTAINS_DELTA_LOG_READ_PTR_AND_LENGTH e \<le> format_version hdr
               \<and> last_snapshot_last_read_ptr s < delta_log_read_ptr hdr
            then delta_log_read_ptr hdr else last_snapshot_last_read_ptr s)
       \<and> delta_read_ptr t = delta_read_ptr s
       \<and> waiting_for_snapshot t = waiting_for_snapshot s
       \<and> sync_state t = sync_state s
       \<and> pending_confirmation t = pending_confirmation s
       \<and> state_delivery_blocked t = state_delivery_blocked s
       \<and> effects t = effects s"
proof (cases "CONTAINS_DELTA_LOG_READ_PTR_AND_LENGTH e \<le> format_version hdr
               \<and> last_snapshot_last_read_ptr s < delta_log_read_ptr hdr")
  case True
  define t where "t = s\<lparr>last_snapshot_last_read_ptr := delta_log_read_ptr hdr,
                          delta_log_byte_offset := byte_offset hdr,
                          delta_log_offset := offset hdr,
                          snapshot_log_timestamp := attr_timestamp a\<rparr>"
  have p: "processSnapshot e pl a s = (True, processSnapshot_finish e True hdr a t)"
    using n True by (simp add: processSnapshot_def d t_def)
  have "version t = version s" "last_snapshot_version t = last_snapshot_version s"
    "last_snapshot_last_read_ptr t = delta_log_read_ptr hdr"
    "delta_read_ptr t = delta_read_ptr s" "waiting_for_snapshot t = waiting_for_snapshot s"
    "sync_state t = sync_state s" "pending_confirmation t = pending_confirmation s"
    "state_delivery_blocked t = state_delivery_blocked s" "effects t = effects s"
    by (simp_all add: t_def)
  with p True show ?thesis by auto
next
  case False
  have p: "processSnapshot e pl a s = (True, processSnapshot_finish e True hdr a s)"
    using n False by (auto simp: processSnapshot_def d)
  with False show ?thesis by auto
qed






lemma applyDelta_calls_simps [simp]:
  "applyDelta_calls [] = []"
  "applyDelta_calls (es @ fs) = applyDelta_calls es @ applyDelta_calls fs"
  "applyDelta_calls (map cannot_confirm ns) = []"
  "applyDelta_calls (map (\<lambda>cb. Update_cb cb t d v) cbs) = []"
  "applyDelta_calls (x # es) = (if is_Call_applyDelta x then x # applyDelta_calls es else applyDelta_calls es)"
  by (simp_all add: applyDelta_calls_def cannot_confirm_def filter_map o_def)

lemma delta_applies_read_ptr [simp]:
  "delta_applies e r (s\<lparr>delta_read_ptr := l\<rparr>) = delta_applies e r s"
  by (simp add: delta_applies_def split: sum.splits)

lemma applyDeltaRecord_cases:
  obtains (undecoded) er h where "deserializeDelta e r DeltaHeader_default = (Inl er, h)"
      and "applyDeltaRecord e r s = ((er, [], None, h), s)"
      and "\<not> delta_applies e r s"
    | (failed) delta h where "deserializeDelta e r DeltaHeader_default = (Inr delta, h)"
      and "fst (snd (applyDelta e delta (data s) (lsn r) (timestamp r))) \<noteq> 0"
      and "applyDeltaRecord e r s =
             ((fst (snd (snd (applyDelta e delta (data s) (lsn r) (timestamp r)))),
               snd (snd (snd (applyDelta e delta (data s) (lsn r) (timestamp r)))),
               Some delta, h),
              (emit [Call_applyDelta delta (data s) (lsn r) (timestamp r)] s)
                \<lparr>data := fst (applyDelta e delta (data s) (lsn r) (timestamp r))\<rparr>)"
      and "\<not> delta_applies e r s"
    | (applied) delta h where "deserializeDelta e r DeltaHeader_default = (Inr delta, h)"
      and "fst (snd (applyDelta e delta (data s) (lsn r) (timestamp r))) = 0"
      and "applyDeltaRecord e r s =
             ((E_OK, snd (snd (snd (applyDelta e delta (data s) (lsn r) (timestamp r)))),
               Some delta, h),
              (emit [Call_applyDelta delta (data s) (lsn r) (timestamp r)] s)
                \<lparr>data := fst (applyDelta e delta (data s) (lsn r) (timestamp r)),
                 version := lsn r\<rparr>)"
      and "delta_applies e r s"
proof -
  obtain res h where d: "deserializeDelta e r DeltaHeader_default = (res, h)"
    by (cases "deserializeDelta e r DeltaHeader_default")
  show thesis
  proof (cases res)
    case (Inl er)
    with d show ?thesis
      by (intro undecoded [of er h]) (simp_all add: applyDeltaRecord_def delta_applies_def)
  next
    case (Inr delta)
    obtain dd rv er reason where
      ap: "applyDelta e delta (data s) (lsn r) (timestamp r) = (dd, rv, er, reason)"
      by (cases "applyDelta e delta (data s) (lsn r) (timestamp r)")
    show ?thesis
    proof (cases "rv = 0")
      case True
      with d Inr ap show ?thesis
        by (intro applied [of delta h]) (simp_all add: applyDeltaRecord_def delta_applies_def)
    next
      case False
      with d Inr ap show ?thesis
        by (intro failed [of delta h]) (simp_all add: applyDeltaRecord_def delta_applies_def)
    qed
  qed
qed

lemma applyDeltaRecord_fields [simp]:
  "last_snapshot_version (snd (applyDeltaRecord e r s)) = last_snapshot_version s"
  "last_snapshot_last_read_ptr (snd (applyDeltaRecord e r s)) = last_snapshot_last_read_ptr s"
  "delta_read_ptr (snd (applyDeltaRecord e r s)) = delta_read_ptr s"
  "waiting_for_snapshot (snd (applyDeltaRecord e r s)) = waiting_for_snapshot s"
  "state_delivery_blocked (snd (applyDeltaRecord e r s)) = state_delivery_blocked s"
  "subscribers (snd (applyDeltaRecord e r s)) = subscribers s"
  "sync_state (snd (applyDeltaRecord e r s)) = sync_state s"
  "pending_confirmation (snd (applyDeltaRecord e r s)) = pending_confirmation s"
  "pending_confirmation_by_uuid (snd (applyDeltaRecord e r s)) = pending_confirmation_by_uuid s"
  by (cases e r s rule: applyDeltaRecord_cases; simp)+

lemma applyDeltaRecord_version:
  "version (snd (applyDeltaRecord e r s)) = (if delta_applies e r s then lsn r else version s)"
  by (cases e r s rule: applyDeltaRecord_cases) simp_all

lemma applyDeltaRecord_data:
  "data (snd (applyDeltaRecord e r s)) =
     (case fst (deserializeDelta e r DeltaHeader_default) of
        Inl er \<Rightarrow> data s
      | Inr delta \<Rightarrow> fst (applyDelta e delta (data s) (lsn r) (timestamp r)))"
  by (cases e r s rule: applyDeltaRecord_cases) simp_all

lemma applyDeltaRecord_effects:
  "effects (snd (applyDeltaRecord e r s)) =
     effects s @
       (case fst (deserializeDelta e r DeltaHeader_default) of
          Inl er \<Rightarrow> []
        | Inr delta \<Rightarrow> [Call_applyDelta delta (data s) (lsn r) (timestamp r)])"
  by (cases e r s rule: applyDeltaRecord_cases) simp_all

lemma onDeltaRecord_finish_fields [simp]:
  "version (onDeltaRecord_finish e r st fr dl h s) = version s"
  "data (onDeltaRecord_finish e r st fr dl h s) = data s"
  "last_snapshot_version (onDeltaRecord_finish e r st fr dl h s) = last_snapshot_version s"
  "last_snapshot_last_read_ptr (onDeltaRecord_finish e r st fr dl h s) = last_snapshot_last_read_ptr s"
  "delta_read_ptr (onDeltaRecord_finish e r st fr dl h s) = delta_read_ptr s"
  "waiting_for_snapshot (onDeltaRecord_finish e r st fr dl h s) = waiting_for_snapshot s"
  "state_delivery_blocked (onDeltaRecord_finish e r st fr dl h s) = state_delivery_blocked s"
  "subscribers (onDeltaRecord_finish e r st fr dl h s) = subscribers s"
  by (simp_all add: onDeltaRecord_finish_def Let_def)

lemma onDeltaRecord_finish_applyDelta_calls:
  "applyDelta_calls (new_effects s (onDeltaRecord_finish e r st fr dl h s)) = []"
  by (simp add: new_effects_def onDeltaRecord_finish_def Let_def confirmDelta_effects
        discardSkippedPendingDeltas_effects notifySubscribers_effects
        onReachedDeltaLogTailLSN_effects split: option.splits)


lemma onDeltaRecord_cases:
  obtains (stalled) "waiting_for_snapshot s \<noteq> LSN_INVALID"
      and "onDeltaRecord e r s = (False, s)"
    | (covered) "waiting_for_snapshot s = LSN_INVALID"
      and "lsn r \<le> version s \<or> lsn r \<le> last_snapshot_last_read_ptr s"
      and "onDeltaRecord e r s = (True, s\<lparr>delta_read_ptr := lsn r\<rparr>)"
    | (processed) st fr dl h where "waiting_for_snapshot s = LSN_INVALID"
      and "version s < lsn r" and "last_snapshot_last_read_ptr s < lsn r"
      and "onDeltaRecord e r s =
             (True, onDeltaRecord_finish e r st fr dl h
                      (snd (applyDeltaRecord e r (s\<lparr>delta_read_ptr := lsn r\<rparr>))))"
proof (cases "waiting_for_snapshot s \<noteq> LSN_INVALID")
  case True
  then show ?thesis by (intro stalled) (simp_all add: onDeltaRecord_def)
next
  case w: False
  show ?thesis
  proof (cases "lsn r \<le> version s \<or> lsn r \<le> last_snapshot_last_read_ptr s")
    case True
    with w show ?thesis by (intro covered) (simp_all add: onDeltaRecord_def)
  next
    case False
    obtain st fr dl h s2 where
      a: "applyDeltaRecord e r (s\<lparr>delta_read_ptr := lsn r\<rparr>) = ((st, fr, dl, h), s2)"
      by (cases "applyDeltaRecord e r (s\<lparr>delta_read_ptr := lsn r\<rparr>)") auto
    from w False show ?thesis
      by (intro processed [of st fr dl h]) (auto simp: onDeltaRecord_def a)
  qed
qed

lemma new_effects_trans:
  assumes "effects t = effects s @ es" and "\<exists>fs. effects u = effects t @ fs"
  shows "new_effects s u = es @ new_effects t u"
  using assms by (auto simp: new_effects_def)

lemma onDeltaRecord_finish_extends:
  "\<exists>fs. effects (onDeltaRecord_finish e r st fr dl h s) = effects s @ fs"
  by (simp add: onDeltaRecord_finish_def Let_def confirmDelta_effects
        discardSkippedPendingDeltas_effects notifySubscribers_effects
        onReachedDeltaLogTailLSN_effects)


lemma processSnapshot_cases:
  obtains (rejected) "\<not> fst (processSnapshot e pl a s)"
      and "version (snd (processSnapshot e pl a s)) = version s"
      and "last_snapshot_version (snd (processSnapshot e pl a s)) = last_snapshot_version s"
      and "write_cb_calls (new_effects s (snd (processSnapshot e pl a s))) = []"
    | (applied) t ok hdr es where
        "processSnapshot e pl a s = (True, processSnapshot_finish e ok hdr a t)"
      and "version s \<le> version t"
      and "last_snapshot_version t = last_snapshot_version s \<and> version t = version s
           \<or> last_snapshot_version t = version t"
      and "pending_confirmation t = pending_confirmation s"
      and "effects t = effects s @ es" and "write_cb_calls es = []"
proof -
  obtain res hdr where d: "deserializeSnapshot e pl a = (res, hdr)"
    by (cases "deserializeSnapshot e pl a")
  show thesis
  proof (cases res)
    case (Inl er)
    note b = processSnapshot_bad [OF d [unfolded Inl], of s]
    show ?thesis
    proof (cases "can_skip_bad_snapshot e")
      case True
      then show ?thesis
        by (intro applied [of False hdr "emit [Log_critical ''Could not deserialize snapshot''] s"
                             "[Log_critical ''Could not deserialize snapshot'']"])
           (simp_all add: b)
    next
      case False
      then show ?thesis
        by (intro rejected) (simp_all add: b)
    qed
  next
    case (Inr st)
    note d' = d [unfolded Inr]
    show ?thesis
    proof (cases "version s < base_version hdr")
      case n: True
      show ?thesis
      proof (cases "sync_state s = TAILING \<and> waiting_for_snapshot s = LSN_INVALID
                      \<and> \<not> fst (canFastForward (base_version hdr) s)")
        case True
        then have "processSnapshot e pl a s = (False, snd (canFastForward (base_version hdr) s))"
          using processSnapshot_gated [OF d' n] by simp
        then show ?thesis
          by (intro rejected) simp_all
      next
        case False
        then have g: "sync_state s = TAILING \<and> waiting_for_snapshot s = LSN_INVALID
              \<longrightarrow> fst (canFastForward (base_version hdr) s)"
          by blast
        from processSnapshot_newer [OF d' n g]
        obtain t es where
          "processSnapshot e pl a s = (True, processSnapshot_finish e True hdr a t)"
          "version t = base_version hdr" "last_snapshot_version t = base_version hdr"
          "pending_confirmation t = pending_confirmation s"
          "effects t = effects s @ es" "write_cb_calls es = []"
          by blast
        with n show ?thesis
          by (intro applied [of True hdr t es]) simp_all
      qed
    next
      case n: False
      from processSnapshot_not_newer [OF d' n]
      obtain t where
        "processSnapshot e pl a s = (True, processSnapshot_finish e True hdr a t)"
        "version t = version s" "last_snapshot_version t = last_snapshot_version s"
        "pending_confirmation t = pending_confirmation s"
        "effects t = effects s"
        by blast
      then show ?thesis
        by (intro applied [of True hdr t "[]"]) simp_all
    qed
  qed
qed

lemma onDeltaGap_fields:
  "version (snd (onDeltaGap e g s)) =
     (if waiting_for_snapshot s = LSN_INVALID \<and> version s < hi g
         \<and> last_snapshot_last_read_ptr s < hi g \<and> snapshot_log_id e = LOGID_INVALID
         \<and> gap_type g = GAP_TRIM
      then hi g else version s)"
  "last_snapshot_version (snd (onDeltaGap e g s)) = last_snapshot_version s"
  "last_snapshot_last_read_ptr (snd (onDeltaGap e g s)) = last_snapshot_last_read_ptr s"
  "delta_read_ptr (snd (onDeltaGap e g s)) =
     (if waiting_for_snapshot s = LSN_INVALID then hi g else delta_read_ptr s)"
proof -
  have [simp]: "version (activateSnapshotFetchTimer t) = version t"
    "last_snapshot_version (activateSnapshotFetchTimer t) = last_snapshot_version t"
    "last_snapshot_last_read_ptr (activateSnapshotFetchTimer t) = last_snapshot_last_read_ptr t"
    "delta_read_ptr (activateSnapshotFetchTimer t) = delta_read_ptr t"
    for t :: "('T, 'D) rsm"
    by (simp_all add: activateSnapshotFetchTimer_def split: option.splits)
  have n: "\<not> (hi g \<le> version s \<or> hi g \<le> last_snapshot_last_read_ptr s)
             \<longleftrightarrow> version s < hi g \<and> last_snapshot_last_read_ptr s < hi g"
    by auto
  show "version (snd (onDeltaGap e g s)) =
     (if waiting_for_snapshot s = LSN_INVALID \<and> version s < hi g
         \<and> last_snapshot_last_read_ptr s < hi g \<and> snapshot_log_id e = LOGID_INVALID
         \<and> gap_type g = GAP_TRIM
      then hi g else version s)"
    by (cases "hi g \<le> version s \<or> hi g \<le> last_snapshot_last_read_ptr s")
       (auto simp: onDeltaGap_def Let_def activateStallGracePeriod_def)
  show "last_snapshot_version (snd (onDeltaGap e g s)) = last_snapshot_version s"
    by (simp add: onDeltaGap_def Let_def activateStallGracePeriod_def)
  show "last_snapshot_last_read_ptr (snd (onDeltaGap e g s)) = last_snapshot_last_read_ptr s"
    by (simp add: onDeltaGap_def Let_def activateStallGracePeriod_def)
  show "delta_read_ptr (snd (onDeltaGap e g s)) =
     (if waiting_for_snapshot s = LSN_INVALID then hi g else delta_read_ptr s)"
    by (simp add: onDeltaGap_def Let_def activateStallGracePeriod_def)
qed

lemma onDeltaRecord_version:
  "version (snd (onDeltaRecord e r s)) =
     (if waiting_for_snapshot s = LSN_INVALID \<and> version s < lsn r
         \<and> last_snapshot_last_read_ptr s < lsn r \<and> delta_applies e r s
      then lsn r else version s)"
  by (cases e r s rule: onDeltaRecord_cases) (auto simp: applyDeltaRecord_version)

lemma onDeltaRecord_positions:
  "last_snapshot_version (snd (onDeltaRecord e r s)) = last_snapshot_version s"
  "last_snapshot_last_read_ptr (snd (onDeltaRecord e r s)) = last_snapshot_last_read_ptr s"
  "delta_read_ptr (snd (onDeltaRecord e r s)) =
     (if waiting_for_snapshot s = LSN_INVALID then lsn r else delta_read_ptr s)"
  by (cases e r s rule: onDeltaRecord_cases; simp)+





lemma counter_rsm_fields:
  "\<not> state_delivery_blocked counter_rsm" "waiting_for_snapshot counter_rsm = LSN_INVALID"
  "version counter_rsm = 10" "last_snapshot_last_read_ptr counter_rsm = 6"
  "last_snapshot_version counter_rsm = 5" "delta_read_ptr counter_rsm = 10"
  "data counter_rsm = 7" "pending_confirmation counter_rsm = []"
  "sync_state counter_rsm = TAILING" "subscribers counter_rsm = [0]"
  "effects counter_rsm = []"
  by (simp_all add: counter_rsm_def)

lemma framed_record_decodes:
  "deserializeDelta counter_env framed_record DeltaHeader_default
     = (Inr 3, \<lparr>checksum = 25, header_sz = 24,
                uuid = [0, 0, 0, 0, 0, 0, 0, 0, 0, 0, 0, 0, 0, 0, 0, 1]\<rparr>)"
  by (simp add: deserializeDelta_def deserializeDeltaHeader_def counter_env_def
        framed_record_def framed_delta_def memcpy_header_def bytes_header_def bytes_u32_def
        header_bytes_def u32_bytes_def DeltaHeader_default_def nil_uuid_def
        offsetof_header_sz_def sizeof_DeltaHeader_def Let_def)

lemma framed_record_applies:
  "data s = 7 \<Longrightarrow> delta_applies counter_env framed_record s"
  by (simp add: delta_applies_def framed_record_decodes)
     (simp add: counter_env_def framed_record_def)




lemma LSN_INVALID_least [simp]: "LSN_INVALID \<le> x"
  by (simp add: LSN_INVALID_def)

lemma replaying_rsm_fields:
  "version replaying_rsm = 10" "last_snapshot_version replaying_rsm = 5"
  "delta_read_ptr replaying_rsm = 10" "sync_state replaying_rsm = SYNC_DELTAS"
  "waiting_for_snapshot replaying_rsm = LSN_INVALID"
  by (simp_all add: replaying_rsm_def counter_rsm_def)

lemma new_snapshot_decodes:
  "deserializeSnapshot counter_env new_snapshot a
     = (Inr 0, \<lparr>format_version = 1, flags = 0, byte_offset = 0, offset = 0,
                base_version = 20, delta_log_read_ptr = 25\<rparr>)"
  by (simp add: deserializeSnapshot_def new_snapshot_def counter_env_def)

lemma processSnapshot_version:
  "version s \<le> version (snd (processSnapshot e pl a s))"
  "last_snapshot_version s \<le> version s \<Longrightarrow>
     last_snapshot_version (snd (processSnapshot e pl a s))
       \<le> version (snd (processSnapshot e pl a s))"
proof -
  show "version s \<le> version (snd (processSnapshot e pl a s))"
  proof (cases e pl a s rule: processSnapshot_cases)
    case rejected
    then show ?thesis by simp
  next
    case (applied t ok hdr es)
    then show ?thesis by simp
  qed
  show "last_snapshot_version (snd (processSnapshot e pl a s))
       \<le> version (snd (processSnapshot e pl a s))"
    if "last_snapshot_version s \<le> version s"
  proof (cases e pl a s rule: processSnapshot_cases)
    case rejected
    with that show ?thesis by simp
  next
    case (applied t ok hdr es)
    with that show ?thesis by auto
  qed
qed

subsection \<open>Discarding skipped pending deltas\<close>

text \<open>
  C9. \<open>discardSkippedPendingDeltas\<close> fires the callback with \<open>FAILED\<close> and the reason
  "Cannot confirm operation" for exactly the longest prefix of \<open>pending_confirmation\<close>
  whose entries have an LSN that is not \<open>LSN_INVALID\<close> and is at most \<open>version\<close>, in
  order; it removes exactly those entries from the list and their uuids from the map, and
  it changes nothing else. So it stops at the first entry whose append has not completed:
  the entries behind such an entry stay, whatever their LSN.
\<close>
theorem discardSkippedPendingDeltas_longest_prefix:
  "pending_confirmation (discardSkippedPendingDeltas s)
     = dropWhile (skipped (version s)) (pending_confirmation s)
   \<and> new_effects s (discardSkippedPendingDeltas s)
     = map (\<lambda>n. Write_cb (cb_p (snd n)) E_FAILED (lsn_p (snd n)) ''Cannot confirm operation'')
         (takeWhile (skipped (version s)) (pending_confirmation s))
   \<and> pending_confirmation_by_uuid (discardSkippedPendingDeltas s)
     = pending_confirmation_by_uuid s |`
         (- (\<lambda>n. uuid_p (snd n)) ` set (takeWhile (skipped (version s)) (pending_confirmation s)))
   \<and> version (discardSkippedPendingDeltas s) = version s
   \<and> ((\<forall>n \<in> set xs. skipped (version s) n) \<and> lsn_p (snd m) = LSN_INVALID
        \<and> pending_confirmation s = xs @ m # ys
      \<longrightarrow> pending_confirmation (discardSkippedPendingDeltas s) = m # ys)"
proof -
  have "(\<forall>n \<in> set xs. skipped (version s) n) \<and> lsn_p (snd m) = LSN_INVALID
        \<Longrightarrow> dropWhile (skipped (version s)) (xs @ m # ys) = m # ys"
    by (simp add: dropWhile_append skipped_def)
  then show ?thesis
    by (auto simp: discardSkippedPendingDeltas_eq new_effects_def cannot_confirm_def)
qed

theorem discardSkippedPendingDeltas_longest_prefix_witness:
  "pending_confirmation
     (discardSkippedPendingDeltas
        (counter_rsm\<lparr>pending_confirmation :=
           [pending_entry 0 1 9 20, pending_entry 1 2 LSN_INVALID 21, pending_entry 2 3 8 22]\<rparr>))
   = [pending_entry 1 2 LSN_INVALID 21, pending_entry 2 3 8 22]"
  using discardSkippedPendingDeltas_longest_prefix
          [of "counter_rsm\<lparr>pending_confirmation :=
                 [pending_entry 0 1 9 20, pending_entry 1 2 LSN_INVALID 21, pending_entry 2 3 8 22]\<rparr>"
              "[pending_entry 0 1 9 20]"
              "pending_entry 1 2 LSN_INVALID 21" "[pending_entry 2 3 8 22]"]
  by (simp add: skipped_def counter_rsm_def pending_entry_def LSN_INVALID_def)

subsection \<open>Subscribing\<close>

text \<open>
  C10. When \<open>sync_state\<close> is \<open>TAILING\<close>, \<open>subscribe(cb)\<close> calls \<open>cb(state, nullptr, version)\<close>
  at once and records the subscriber, whether or not \<open>state_delivery_blocked\<close> is set;
  \<open>notifySubscribers\<close>, the bulk path, calls nobody while the flag is set.
\<close>
theorem subscribe_tailing_delivers:
  "sync_state s = TAILING \<longrightarrow>
     new_effects s (subscribe cb s) = [Update_cb cb (data s) None (version s)]
     \<and> subscribers (subscribe cb s) = subscribers s @ [cb]
     \<and> (state_delivery_blocked s \<longrightarrow> new_effects s (notifySubscribers e delta s) = [])"
  by (simp add: subscribe_def notifySubscribers_def new_effects_def emit_def)

theorem subscribe_tailing_delivers_witness:
  "state_delivery_blocked (counter_rsm\<lparr>state_delivery_blocked := True\<rparr>)
   \<and> new_effects (counter_rsm\<lparr>state_delivery_blocked := True\<rparr>)
        (subscribe 3 (counter_rsm\<lparr>state_delivery_blocked := True\<rparr>))
      = [Update_cb 3 7 None 10]"
  using subscribe_tailing_delivers [where s = "counter_rsm\<lparr>state_delivery_blocked := True\<rparr>" and cb = 3]
  by (simp add: counter_rsm_def)

subsection \<open>The delta header parser\<close>

lemma bytes_u32_cong:
  "take 4 xs = take 4 ys \<Longrightarrow> bytes_u32 xs = bytes_u32 ys"
proof -
  assume h: "take 4 xs = take 4 ys"
  have "xs ! i = ys ! i" if "i < 4" for i
    using that h by (metis nth_take)
  then show ?thesis by (simp add: bytes_u32_def)
qed

lemma memcpy_header_prefix:
  assumes "8 \<le> n" "n \<le> length pl"
  shows "checksum (memcpy_header h pl n) = stored_checksum pl"
    and "unat (header_sz (memcpy_header h pl n)) = declared_header_sz pl"
  using assms
  by (simp_all add: memcpy_header_def bytes_header_def stored_checksum_def
        declared_header_sz_def offsetof_header_sz_def min_def drop_take)

text \<open>
  C6. With a minimum header size of at least eight bytes (the checksum and the header
  size), \<open>deserializeDeltaHeader\<close> accepts a payload exactly when the payload has at least
  \<open>MIN_DELTA_HEADER_SZ\<close> bytes, the header size it declares lies between
  \<open>MIN_DELTA_HEADER_SZ\<close> and the payload size, and the checksum of the bytes from
  \<open>offsetof(DeltaHeader, header_sz)\<close> up to the declared header size equals the stored
  checksum. In every other case \<open>deserializeDelta\<close> leaves the header default
  initialised, with the nil uuid, and hands the whole payload to the virtual
  \<open>deserializeDelta\<close>.
\<close>
theorem deserializeDeltaHeader_accepts_iff:
  assumes "8 \<le> MIN_DELTA_HEADER_SZ e"
  shows "(fst (deserializeDeltaHeader e pl h) \<longleftrightarrow>
           MIN_DELTA_HEADER_SZ e \<le> length pl
           \<and> MIN_DELTA_HEADER_SZ e \<le> declared_header_sz pl
           \<and> declared_header_sz pl \<le> length pl
           \<and> checksum_32bit e
                (take (declared_header_sz pl - offsetof_header_sz) (drop offsetof_header_sz pl))
              = stored_checksum pl)
       \<and> (\<not> fst (deserializeDeltaHeader e (payload r) h) \<longrightarrow>
           deserializeDelta e r h = (deserializeDelta_virtual e (payload r), DeltaHeader_default)
           \<and> uuid (snd (deserializeDelta e r h)) = nil_uuid
           \<and> is_nil (uuid (snd (deserializeDelta e r h))))"
proof (intro conjI)
  show "fst (deserializeDeltaHeader e pl h) \<longleftrightarrow>
           MIN_DELTA_HEADER_SZ e \<le> length pl
           \<and> MIN_DELTA_HEADER_SZ e \<le> declared_header_sz pl
           \<and> declared_header_sz pl \<le> length pl
           \<and> checksum_32bit e
                (take (declared_header_sz pl - offsetof_header_sz) (drop offsetof_header_sz pl))
              = stored_checksum pl"
  proof (cases "MIN_DELTA_HEADER_SZ e \<le> length pl")
    case False
    then show ?thesis by (simp add: deserializeDeltaHeader_def)
  next
    case True
    note m = memcpy_header_prefix [OF assms True]
    show ?thesis using True
      by (simp add: deserializeDeltaHeader_def Let_def m)
  qed
  show "\<not> fst (deserializeDeltaHeader e (payload r) h) \<longrightarrow>
           deserializeDelta e r h = (deserializeDelta_virtual e (payload r), DeltaHeader_default)
           \<and> uuid (snd (deserializeDelta e r h)) = nil_uuid
           \<and> is_nil (uuid (snd (deserializeDelta e r h)))"
    by (simp add: deserializeDelta_def DeltaHeader_default_def nil_uuid_def is_nil_def
          split: prod.splits)
qed

theorem deserializeDeltaHeader_accepts_iff_witness:
  "fst (deserializeDeltaHeader counter_env framed_delta DeltaHeader_default)
   \<and> \<not> fst (deserializeDeltaHeader counter_env tampered_delta DeltaHeader_default)
   \<and> deserializeDelta counter_env \<lparr>lsn = 11, timestamp = 0, payload = tampered_delta\<rparr>
        DeltaHeader_default = (Inr 27, DeltaHeader_default)"
proof -
  have m: "8 \<le> MIN_DELTA_HEADER_SZ counter_env" by (simp add: counter_env_def)
  have a: "fst (deserializeDeltaHeader counter_env framed_delta DeltaHeader_default)"
    unfolding deserializeDeltaHeader_accepts_iff [OF m, THEN conjunct1]
    by (simp add: counter_env_def framed_delta_def declared_header_sz_def stored_checksum_def
          offsetof_header_sz_def bytes_u32_def)
  have b: "\<not> fst (deserializeDeltaHeader counter_env tampered_delta DeltaHeader_default)"
    unfolding deserializeDeltaHeader_accepts_iff [OF m, THEN conjunct1]
    by (simp add: counter_env_def tampered_delta_def declared_header_sz_def stored_checksum_def
          offsetof_header_sz_def bytes_u32_def)
  have c: "deserializeDelta counter_env \<lparr>lsn = 11, timestamp = 0, payload = tampered_delta\<rparr>
        DeltaHeader_default = (Inr 27, DeltaHeader_default)"
    using b deserializeDeltaHeader_accepts_iff
            [OF m, THEN conjunct2, of "\<lparr>lsn = 11, timestamp = 0, payload = tampered_delta\<rparr>" DeltaHeader_default]
    by (simp add: counter_env_def tampered_delta_def)
  from a b c show ?thesis by simp
qed

subsection \<open>Writing a delta that cannot be confirmed\<close>

text \<open>
  C2. A \<open>CONFIRM_APPLIED\<close> write on a machine that writes no delta header: the machine
  is tailing, its read stream is healthy and nothing is pending. \<open>writeDelta\<close> calls the
  callback with \<open>NOTSUPPORTED\<close> and then goes on: it generates the uuid, adds the pending
  confirmation and posts the append of the bare payload.
\<close>
theorem writeDelta_NOTSUPPORTED_still_appends:
  "new_effects counter_rsm
     (writeDelta (counter_env\<lparr>write_delta_header := False\<rparr>) [1, 2] 99 CONFIRM_APPLIED None None
        counter_rsm)
     = [Write_cb 99 E_NOTSUPPORTED LSN_INVALID ''Operation Not Supported'',
        PostAppendRequest 1 [1, 2] 5000
          (Append_cb CONFIRM_APPLIED [0, 0, 0, 0, 0, 0, 0, 0, 0, 0, 0, 0, 0, 0, 0, 1] 99)]
   \<and> pending_confirmation
        (writeDelta (counter_env\<lparr>write_delta_header := False\<rparr>) [1, 2] 99 CONFIRM_APPLIED None None
           counter_rsm)
     = [(0, \<lparr>uuid_p = [0, 0, 0, 0, 0, 0, 0, 0, 0, 0, 0, 0, 0, 0, 0, 1], lsn_p = LSN_INVALID,
             cb_p = 99, timeout_p = 5000, timer_p = False\<rparr>)]
   \<and> delta_appends_in_flight
        (writeDelta (counter_env\<lparr>write_delta_header := False\<rparr>) [1, 2] 99 CONFIRM_APPLIED None None
           counter_rsm) = 1"
  by (simp add: writeDelta_def writeDelta_submit_def createDeltaPayload_def counter_env_def
        counter_rsm_def DeltaHeader_default_def Let_def new_effects_def emit_def)

subsection \<open>Rejected and skipped snapshots\<close>

text \<open>
  C7. \<open>snapshot(cb)\<close> checks in this order: without a snapshot log it calls \<open>cb\<close> with
  \<open>NOTSUPPORTED\<close>; with a snapshot in flight, with \<open>INPROGRESS\<close>; when not tailing, with
  \<open>AGAIN\<close>; when the read pointer is to be included and \<open>delta_read_ptr < version\<close>, with
  \<open>FAILED\<close> (after a critical message). When a snapshot store is configured,
  \<open>version \<le> last_written_version\<close> and the read pointer is not included or
  \<open>last_snapshot_last_read_ptr \<ge> delta_read_ptr\<close>, it writes nothing and posts the
  completion with \<open>UPTODATE\<close>; when the worker runs the completion, it advertises the
  durable version (on the worker of a server only) and calls \<open>cb\<close> with \<open>UPTODATE\<close>.
  In all five cases every data member is as before.
\<close>
theorem snapshot_rejects_or_skips:
  "(snapshot_log_id e = LOGID_INVALID \<longrightarrow>
      new_effects s (snapshot e cb s) = status_cb_effects cb E_NOTSUPPORTED
      \<and> same_core s (snapshot e cb s))
   \<and> (snapshot_log_id e \<noteq> LOGID_INVALID \<and> snapshot_in_flight s \<longrightarrow>
      new_effects s (snapshot e cb s) = status_cb_effects cb E_INPROGRESS
      \<and> same_core s (snapshot e cb s))
   \<and> (snapshot_log_id e \<noteq> LOGID_INVALID \<and> \<not> snapshot_in_flight s \<and> sync_state s \<noteq> TAILING \<longrightarrow>
      new_effects s (snapshot e cb s) = status_cb_effects cb E_AGAIN
      \<and> same_core s (snapshot e cb s))
   \<and> (snapshot_log_id e \<noteq> LOGID_INVALID \<and> \<not> snapshot_in_flight s \<and> sync_state s = TAILING
        \<and> rsm_include_read_pointer_in_snapshot e \<and> delta_read_ptr s < version s \<longrightarrow>
      new_effects s (snapshot e cb s)
        = Log_critical ''RSM is in inconsistent state'' # status_cb_effects cb E_FAILED
      \<and> same_core s (snapshot e cb s))
   \<and> (snapshot_log_id e \<noteq> LOGID_INVALID \<and> \<not> snapshot_in_flight s \<and> sync_state s = TAILING
        \<and> \<not> (rsm_include_read_pointer_in_snapshot e \<and> delta_read_ptr s < version s)
        \<and> snapshot_store e \<and> version s \<le> last_written_version s
        \<and> (\<not> rsm_include_read_pointer_in_snapshot e
            \<or> last_snapshot_last_read_ptr s \<ge> delta_read_ptr s) \<longrightarrow>
      new_effects s (snapshot e cb s)
        = [PostCallbackRequest E_UPTODATE (last_written_version s) (snapshot_closure_of e cb s)]
      \<and> same_core s (snapshot e cb s)
      \<and> new_effects (snapshot e cb s)
           (snapshot_cb_request e (snapshot_closure_of e cb s) E_UPTODATE (last_written_version s)
              (snapshot e cb s))
        = advertised e DURABLE (last_written_version s) @ status_cb_effects cb E_UPTODATE
      \<and> same_core s
           (snapshot_cb_request e (snapshot_closure_of e cb s) E_UPTODATE (last_written_version s)
              (snapshot e cb s)))"
proof -
  have same [simp]: "s\<lparr>effects := effects s\<rparr> = s" for s :: "('T, 'D) rsm"
    by simp
  have cb [simp]: "effects (cb_or_noop cb st t) = effects t @ status_cb_effects cb st
                   \<and> (cb_or_noop cb st t)\<lparr>effects := es\<rparr> = t\<lparr>effects := es\<rparr>"
    for st es and t :: "('T, 'D) rsm"
    by (simp add: cb_or_noop_def status_cb_effects_def emit_def split: option.splits)
  show ?thesis
    by (auto simp: snapshot_def same_core_def Let_def emit_def snapshot_cb_def
          snapshot_cb_request_def snapshot_closure_of_def advertiseVersions_def advertised_def
          new_effects_def)
qed

theorem snapshot_rejects_or_skips_witness:
  "new_effects (counter_rsm\<lparr>last_written_version := 10, last_snapshot_last_read_ptr := 10\<rparr>)
     (snapshot (counter_env\<lparr>snapshot_store := True\<rparr>) (Some 5)
        (counter_rsm\<lparr>last_written_version := 10, last_snapshot_last_read_ptr := 10\<rparr>))
   = [PostCallbackRequest E_UPTODATE 10 (Snapshot_cb 0 0 10 10 (Some 5))]
   \<and> new_effects
        (snapshot (counter_env\<lparr>snapshot_store := True\<rparr>) (Some 5)
           (counter_rsm\<lparr>last_written_version := 10, last_snapshot_last_read_ptr := 10\<rparr>))
        (snapshot_cb_request (counter_env\<lparr>snapshot_store := True\<rparr>)
           (Snapshot_cb 0 0 10 10 (Some 5)) E_UPTODATE 10
           (snapshot (counter_env\<lparr>snapshot_store := True\<rparr>) (Some 5)
              (counter_rsm\<lparr>last_written_version := 10, last_snapshot_last_read_ptr := 10\<rparr>)))
   = [AdvertiseVersions DURABLE 10, Status_cb 5 E_UPTODATE]
   \<and> new_effects counter_rsm (snapshot (counter_env\<lparr>snapshot_log_id := LOGID_INVALID\<rparr>) (Some 5) counter_rsm)
   = [Status_cb 5 E_NOTSUPPORTED]"
  using snapshot_rejects_or_skips
          [of "counter_env\<lparr>snapshot_store := True\<rparr>"
              "counter_rsm\<lparr>last_written_version := 10, last_snapshot_last_read_ptr := 10\<rparr>" "Some 5"]
        snapshot_rejects_or_skips
          [of "counter_env\<lparr>snapshot_log_id := LOGID_INVALID\<rparr>" counter_rsm "Some 5"]
  by (simp add: counter_env_def counter_rsm_def LOGID_INVALID_def snapshot_closure_of_def
        createSnapshotPayload_def status_cb_effects_def advertised_def)

subsection \<open>A gap in the delta log without a snapshot log\<close>

text \<open>
  C8, as stated, fails where it says that the subscribers are notified: no snapshot log
  is configured, the machine is tailing with one subscriber, and state delivery is
  blocked. A \<open>TRIM\<close> gap up to LSN 30 moves \<open>version\<close> to 30 and resets the state, and
  nobody is called.
\<close>
theorem onDeltaGap_blocked_counterexample:
  "snapshot_log_id (counter_env\<lparr>snapshot_log_id := LOGID_INVALID\<rparr>) = LOGID_INVALID
   \<and> sync_state (counter_rsm\<lparr>state_delivery_blocked := True\<rparr>) = TAILING
   \<and> subscribers (counter_rsm\<lparr>state_delivery_blocked := True\<rparr>) = [0]
   \<and> version (snd (onDeltaGap (counter_env\<lparr>snapshot_log_id := LOGID_INVALID\<rparr>)
                      \<lparr>gap_type = GAP_TRIM, lo = 11, hi = 30\<rparr>
                      (counter_rsm\<lparr>state_delivery_blocked := True\<rparr>))) = 30
   \<and> new_effects (counter_rsm\<lparr>state_delivery_blocked := True\<rparr>)
        (snd (onDeltaGap (counter_env\<lparr>snapshot_log_id := LOGID_INVALID\<rparr>)
                \<lparr>gap_type = GAP_TRIM, lo = 11, hi = 30\<rparr>
                (counter_rsm\<lparr>state_delivery_blocked := True\<rparr>))) = []"
  by (simp add: onDeltaGap_def Let_def notifySubscribers_def new_effects_def counter_env_def
        counter_rsm_def LOGID_INVALID_def LSN_INVALID_def)

text \<open>
  C8, amended. No snapshot log is configured (so the machine never waits for a
  snapshot), and a gap arrives whose upper end is above \<open>version\<close> and above
  \<open>last_snapshot_last_read_ptr\<close>. For a \<open>TRIM\<close> gap, \<open>version\<close> becomes \<open>gap.hi\<close>, the state
  becomes \<open>makeDefaultState(gap.hi)\<close>, and when the machine is tailing or delivers while
  replaying and state delivery is not blocked, every subscriber is called with the
  default state and \<open>gap.hi\<close> (and the version is advertised, on the worker of a server);
  while state delivery is blocked nobody is called. For a \<open>DATALOSS\<close> gap a critical
  message is logged and the state, \<open>version\<close> and \<open>waiting_for_snapshot\<close> stay.
\<close>
theorem onDeltaGap_without_snapshot_log:
  assumes "snapshot_log_id e = LOGID_INVALID"
    and "waiting_for_snapshot s = LSN_INVALID"
    and "version s < hi g"
    and "last_snapshot_last_read_ptr s < hi g"
  shows "(gap_type g = GAP_TRIM \<longrightarrow>
           fst (onDeltaGap e g s)
           \<and> version (snd (onDeltaGap e g s)) = hi g
           \<and> data (snd (onDeltaGap e g s)) = makeDefaultState e (hi g)
           \<and> delta_read_ptr (snd (onDeltaGap e g s)) = hi g
           \<and> waiting_for_snapshot (snd (onDeltaGap e g s)) = LSN_INVALID
           \<and> (sync_state s = TAILING \<or> deliver_while_replaying e \<longrightarrow>
                new_effects s (snd (onDeltaGap e g s))
                  = (if subscribers s = [] \<or> state_delivery_blocked s then []
                     else map (\<lambda>cb. Update_cb cb (makeDefaultState e (hi g)) None (hi g))
                            (subscribers s)
                          @ advertised e IN_MEMORY (hi g))))
       \<and> (gap_type g = GAP_DATALOSS \<longrightarrow>
           fst (onDeltaGap e g s)
           \<and> data (snd (onDeltaGap e g s)) = data s
           \<and> version (snd (onDeltaGap e g s)) = version s
           \<and> waiting_for_snapshot (snd (onDeltaGap e g s)) = waiting_for_snapshot s
           \<and> Log_critical ''Receiving a DATALOSS gap'' \<in> set (new_effects s (snd (onDeltaGap e g s))))"
proof -
  have n: "\<not> (hi g \<le> version s \<or> hi g \<le> last_snapshot_last_read_ptr s)"
    using assms(3,4) by auto
  show ?thesis
    using assms(1,2) n
    by (auto simp: onDeltaGap_def Let_def new_effects_def notifySubscribers_effects
          onReachedDeltaLogTailLSN_effects)
qed

theorem onDeltaGap_without_snapshot_log_witness:
  "version (snd (onDeltaGap (counter_env\<lparr>snapshot_log_id := LOGID_INVALID\<rparr>)
                   \<lparr>gap_type = GAP_TRIM, lo = 11, hi = 30\<rparr> counter_rsm)) = 30
   \<and> new_effects counter_rsm
        (snd (onDeltaGap (counter_env\<lparr>snapshot_log_id := LOGID_INVALID\<rparr>)
                \<lparr>gap_type = GAP_TRIM, lo = 11, hi = 30\<rparr> counter_rsm))
      = [Update_cb 0 0 None 30, AdvertiseVersions IN_MEMORY 30]
   \<and> new_effects counter_rsm
        (snd (onDeltaGap (counter_env\<lparr>snapshot_log_id := LOGID_INVALID, server := False\<rparr>)
                \<lparr>gap_type = GAP_TRIM, lo = 11, hi = 30\<rparr> counter_rsm))
      = [Update_cb 0 0 None 30]"
  using onDeltaGap_without_snapshot_log
          [of "counter_env\<lparr>snapshot_log_id := LOGID_INVALID\<rparr>" counter_rsm
              "\<lparr>gap_type = GAP_TRIM, lo = 11, hi = 30\<rparr>"]
        onDeltaGap_without_snapshot_log
          [of "counter_env\<lparr>snapshot_log_id := LOGID_INVALID, server := False\<rparr>" counter_rsm
              "\<lparr>gap_type = GAP_TRIM, lo = 11, hi = 30\<rparr>"]
  by (simp add: counter_env_def counter_rsm_def advertised_def)

subsection \<open>Stalling until a snapshot arrives\<close>




subsection \<open>Applying a delta record\<close>

text \<open>
  C4. \<open>onDeltaRecord\<close> calls \<open>applyDelta\<close> only for a record whose LSN is above \<open>version\<close>
  and above \<open>last_snapshot_last_read_ptr\<close> as they were before the call (and only when the
  machine is not waiting for a snapshot), once, on the decoded delta and the state as it
  was. A record that is not above both is skipped: nothing changes but \<open>delta_read_ptr\<close>.
  For a record above both, \<open>version\<close> becomes the record's LSN exactly when the delta
  decodes and \<open>applyDelta\<close> returns 0; when decoding or applying fails, \<open>version\<close> stays,
  as do \<open>last_snapshot_version\<close> and \<open>last_snapshot_last_read_ptr\<close>, and when decoding
  fails the state stays as well.
\<close>
theorem onDeltaRecord_applies_above_version:
  "applyDelta_calls (new_effects s (snd (onDeltaRecord e r s)))
     = (if waiting_for_snapshot s = LSN_INVALID \<and> version s < lsn r
           \<and> last_snapshot_last_read_ptr s < lsn r
        then (case fst (deserializeDelta e r DeltaHeader_default) of
                Inl er \<Rightarrow> []
              | Inr delta \<Rightarrow> [Call_applyDelta delta (data s) (lsn r) (timestamp r)])
        else [])
   \<and> (waiting_for_snapshot s \<noteq> LSN_INVALID \<or> lsn r \<le> version s
        \<or> lsn r \<le> last_snapshot_last_read_ptr s \<longrightarrow>
        snd (onDeltaRecord e r s) = s
        \<or> snd (onDeltaRecord e r s) = s\<lparr>delta_read_ptr := lsn r\<rparr>)
   \<and> (waiting_for_snapshot s = LSN_INVALID \<and> version s < lsn r
        \<and> last_snapshot_last_read_ptr s < lsn r \<longrightarrow>
        (version (snd (onDeltaRecord e r s)) = lsn r \<longleftrightarrow> delta_applies e r s)
        \<and> (\<not> delta_applies e r s \<longrightarrow> version (snd (onDeltaRecord e r s)) = version s)
        \<and> last_snapshot_version (snd (onDeltaRecord e r s)) = last_snapshot_version s
        \<and> last_snapshot_last_read_ptr (snd (onDeltaRecord e r s)) = last_snapshot_last_read_ptr s
        \<and> ((\<exists>er. fst (deserializeDelta e r DeltaHeader_default) = Inl er) \<longrightarrow>
             data (snd (onDeltaRecord e r s)) = data s))"
proof (cases e r s rule: onDeltaRecord_cases)
  case stalled
  then show ?thesis by simp
next
  case covered
  then show ?thesis by (auto simp: new_effects_def)
next
  case (processed st fr dl h)
  let ?t = "snd (applyDeltaRecord e r (s\<lparr>delta_read_ptr := lsn r\<rparr>))"
  have et: "effects ?t = effects s @
       (case fst (deserializeDelta e r DeltaHeader_default) of
          Inl er \<Rightarrow> []
        | Inr delta \<Rightarrow> [Call_applyDelta delta (data s) (lsn r) (timestamp r)])"
    by (simp add: applyDeltaRecord_effects split: sum.splits)
  have a: "applyDelta_calls (new_effects s (onDeltaRecord_finish e r st fr dl h ?t))
     = (case fst (deserializeDelta e r DeltaHeader_default) of
          Inl er \<Rightarrow> []
        | Inr delta \<Rightarrow> [Call_applyDelta delta (data s) (lsn r) (timestamp r)])"
    unfolding new_effects_trans [OF et onDeltaRecord_finish_extends]
    by (simp add: onDeltaRecord_finish_applyDelta_calls split: sum.splits)
  have v: "version ?t = (if delta_applies e r s then lsn r else version s)"
    by (simp add: applyDeltaRecord_version)
  have dt: "(\<exists>er. fst (deserializeDelta e r DeltaHeader_default) = Inl er) \<longrightarrow> data ?t = data s"
    by (auto simp: applyDeltaRecord_data split: sum.splits)
  show ?thesis
    unfolding processed(4) snd_conv using processed(1-3) a v dt
    by auto
qed

theorem onDeltaRecord_applies_above_version_witness:
  "version (snd (onDeltaRecord counter_env \<lparr>lsn = 11, timestamp = 0, payload = framed_delta\<rparr>
                   counter_rsm)) = 11
   \<and> applyDelta_calls
        (new_effects counter_rsm
           (snd (onDeltaRecord counter_env \<lparr>lsn = 11, timestamp = 0, payload = framed_delta\<rparr>
                   counter_rsm)))
      = [Call_applyDelta 3 7 11 0]
   \<and> snd (onDeltaRecord counter_env \<lparr>lsn = 9, timestamp = 0, payload = framed_delta\<rparr>
             (counter_rsm\<lparr>delta_read_ptr := 8\<rparr>))
      = counter_rsm\<lparr>delta_read_ptr := 9\<rparr>"
proof -
  have m: "8 \<le> MIN_DELTA_HEADER_SZ counter_env" by (simp add: counter_env_def)
  have d: "deserializeDelta counter_env \<lparr>lsn = 11, timestamp = 0, payload = framed_delta\<rparr>
             DeltaHeader_default
           = (Inr 3, \<lparr>checksum = 25, header_sz = 24,
                      uuid = [0, 0, 0, 0, 0, 0, 0, 0, 0, 0, 0, 0, 0, 0, 0, 1]\<rparr>)"
    by (simp add: deserializeDelta_def deserializeDeltaHeader_def counter_env_def
          framed_delta_def memcpy_header_def bytes_header_def bytes_u32_def header_bytes_def
          u32_bytes_def DeltaHeader_default_def nil_uuid_def offsetof_header_sz_def
          sizeof_DeltaHeader_def Let_def)
  have ap: "delta_applies counter_env \<lparr>lsn = 11, timestamp = 0, payload = framed_delta\<rparr> counter_rsm"
    by (simp add: delta_applies_def d) (simp add: counter_env_def)
  have c: "snd (onDeltaRecord counter_env \<lparr>lsn = 9, timestamp = 0, payload = framed_delta\<rparr>
             (counter_rsm\<lparr>delta_read_ptr := 8\<rparr>))
      = counter_rsm\<lparr>delta_read_ptr := 9\<rparr>"
    by (simp add: onDeltaRecord_def counter_rsm_def LSN_INVALID_def)
  show ?thesis
    using onDeltaRecord_applies_above_version
            [of counter_rsm counter_env "\<lparr>lsn = 11, timestamp = 0, payload = framed_delta\<rparr>"]
          ap c
    by (simp add: d) (simp add: counter_rsm_def LSN_INVALID_def)
qed

subsection \<open>Confirmations while state delivery is blocked\<close>




subsection \<open>The order of the three positions\<close>

text \<open>
  C1, as stated, fails for \<open>version \<le> delta_read_ptr\<close>. The machine replays its delta log
  at version 10, with \<open>delta_read_ptr\<close> at 10, and reads a snapshot with base version 20:
  \<open>processSnapshot\<close> moves \<open>version\<close> to 20 and leaves \<open>delta_read_ptr\<close> at 10.
\<close>
theorem version_above_read_ptr_counterexample:
  "snapshot_below_version replaying_rsm
   \<and> version_below_read_ptr replaying_rsm
   \<and> fst (processSnapshot counter_env new_snapshot
             \<lparr>attr_base_version = 60, attr_timestamp = 0\<rparr> replaying_rsm)
   \<and> version (snd (processSnapshot counter_env new_snapshot
                      \<lparr>attr_base_version = 60, attr_timestamp = 0\<rparr> replaying_rsm)) = 20
   \<and> delta_read_ptr (snd (processSnapshot counter_env new_snapshot
                             \<lparr>attr_base_version = 60, attr_timestamp = 0\<rparr> replaying_rsm)) = 10
   \<and> \<not> version_below_read_ptr
          (snd (processSnapshot counter_env new_snapshot
                  \<lparr>attr_base_version = 60, attr_timestamp = 0\<rparr> replaying_rsm))"
proof -
  let ?a = "\<lparr>attr_base_version = 60, attr_timestamp = 0\<rparr>"
  let ?h = "\<lparr>format_version = 1, flags = 0, byte_offset = 0, offset = 0,
             base_version = 20, delta_log_read_ptr = 25\<rparr>"
  note d = new_snapshot_decodes [of ?a]
  have n: "version replaying_rsm < base_version ?h"
    by (simp add: replaying_rsm_fields)
  have g: "sync_state replaying_rsm = TAILING \<and> waiting_for_snapshot replaying_rsm = LSN_INVALID
             \<longrightarrow> fst (canFastForward (base_version ?h) replaying_rsm)"
    by (simp add: replaying_rsm_fields)
  from processSnapshot_newer [OF d n g]
  obtain t where ps: "processSnapshot counter_env new_snapshot ?a replaying_rsm
                        = (True, processSnapshot_finish counter_env True ?h ?a t)"
    and f: "version t = base_version ?h" "delta_read_ptr t = delta_read_ptr replaying_rsm"
      "sync_state t = sync_state replaying_rsm"
    by blast
  have r: "fst (processSnapshot counter_env new_snapshot ?a replaying_rsm)"
    "version (snd (processSnapshot counter_env new_snapshot ?a replaying_rsm)) = 20"
    "delta_read_ptr (snd (processSnapshot counter_env new_snapshot ?a replaying_rsm)) = 10"
    unfolding ps fst_conv snd_conv by (simp_all add: f replaying_rsm_fields)
  then show ?thesis
    by (simp add: snapshot_below_version_def version_below_read_ptr_def replaying_rsm_fields)
qed

text \<open>
  C1, amended. \<open>processSnapshot\<close>, \<open>onDeltaRecord\<close>, \<open>onDeltaGap\<close> and the bootstrap steps
  (\<open>start\<close>, \<open>onBaseSnapshotRetrieved\<close>, \<open>onGotDeltaLogTailLSN\<close>) never decrease \<open>version\<close>
  and preserve \<open>last_snapshot_version \<le> version\<close>. \<open>version \<le> delta_read_ptr\<close> is
  preserved by \<open>onDeltaRecord\<close> and \<open>onDeltaGap\<close>, for a record or a gap above
  \<open>delta_read_ptr\<close> (which the code asserts), and by the bootstrap steps; it is not
  preserved by \<open>processSnapshot\<close>, which moves \<open>version\<close> to the base version of the
  snapshot and leaves \<open>delta_read_ptr\<close> where it is.
\<close>
theorem version_order_preserved:
  "version s \<le> version (snd (processSnapshot e pl a s))
   \<and> (snapshot_below_version s \<longrightarrow> snapshot_below_version (snd (processSnapshot e pl a s)))
   \<and> version s \<le> version (snd (onDeltaRecord e r s))
   \<and> (snapshot_below_version s \<longrightarrow> snapshot_below_version (snd (onDeltaRecord e r s)))
   \<and> (version_below_read_ptr s \<and> delta_read_ptr s < lsn r \<longrightarrow>
        version_below_read_ptr (snd (onDeltaRecord e r s)))
   \<and> version s \<le> version (snd (onDeltaGap e g s))
   \<and> (snapshot_below_version s \<longrightarrow> snapshot_below_version (snd (onDeltaGap e g s)))
   \<and> (version_below_read_ptr s \<and> delta_read_ptr s < hi g \<longrightarrow>
        version_below_read_ptr (snd (onDeltaGap e g s)))
   \<and> version (start e s) = version s
   \<and> version (onBaseSnapshotRetrieved e s) = version s
   \<and> version (onGotDeltaLogTailLSN e l s) = version s
   \<and> (snapshot_below_version s \<longrightarrow>
        snapshot_below_version (start e s)
        \<and> snapshot_below_version (onBaseSnapshotRetrieved e s)
        \<and> snapshot_below_version (onGotDeltaLogTailLSN e l s))
   \<and> (version_below_read_ptr s \<longrightarrow>
        version_below_read_ptr (start e s)
        \<and> version_below_read_ptr (onBaseSnapshotRetrieved e s)
        \<and> version_below_read_ptr (onGotDeltaLogTailLSN e l s))"
proof -
  have ps: "version s \<le> version (snd (processSnapshot e pl a s))
      \<and> (snapshot_below_version s \<longrightarrow> snapshot_below_version (snd (processSnapshot e pl a s)))"
    using processSnapshot_version [of s e pl a] by (simp add: snapshot_below_version_def)
  have dr: "version s \<le> version (snd (onDeltaRecord e r s))
      \<and> (snapshot_below_version s \<longrightarrow> snapshot_below_version (snd (onDeltaRecord e r s)))
      \<and> (version_below_read_ptr s \<and> delta_read_ptr s < lsn r \<longrightarrow>
           version_below_read_ptr (snd (onDeltaRecord e r s)))"
    by (auto simp: snapshot_below_version_def version_below_read_ptr_def onDeltaRecord_version
          onDeltaRecord_positions)
  have dg: "version s \<le> version (snd (onDeltaGap e g s))
      \<and> (snapshot_below_version s \<longrightarrow> snapshot_below_version (snd (onDeltaGap e g s)))
      \<and> (version_below_read_ptr s \<and> delta_read_ptr s < hi g \<longrightarrow>
           version_below_read_ptr (snd (onDeltaGap e g s)))"
    by (auto simp: snapshot_below_version_def version_below_read_ptr_def onDeltaGap_fields)
  have b: "version (start e s) = version s
      \<and> version (onBaseSnapshotRetrieved e s) = version s
      \<and> version (onGotDeltaLogTailLSN e l s) = version s
      \<and> (snapshot_below_version s \<longrightarrow>
           snapshot_below_version (start e s)
           \<and> snapshot_below_version (onBaseSnapshotRetrieved e s)
           \<and> snapshot_below_version (onGotDeltaLogTailLSN e l s))
      \<and> (version_below_read_ptr s \<longrightarrow>
           version_below_read_ptr (start e s)
           \<and> version_below_read_ptr (onBaseSnapshotRetrieved e s)
           \<and> version_below_read_ptr (onGotDeltaLogTailLSN e l s))"
    by (auto simp: snapshot_below_version_def version_below_read_ptr_def)
  from ps dr dg b show ?thesis by blast
qed

theorem version_order_preserved_witness:
  "snapshot_below_version counter_rsm
   \<and> version_below_read_ptr counter_rsm
   \<and> delta_read_ptr counter_rsm < lsn framed_record
   \<and> version (snd (onDeltaRecord counter_env framed_record counter_rsm)) = 11
   \<and> snapshot_below_version (snd (onDeltaRecord counter_env framed_record counter_rsm))
   \<and> version_below_read_ptr (snd (onDeltaRecord counter_env framed_record counter_rsm))"
proof -
  have h: "snapshot_below_version counter_rsm" "version_below_read_ptr counter_rsm"
    "delta_read_ptr counter_rsm < lsn framed_record"
    by (simp_all add: snapshot_below_version_def version_below_read_ptr_def counter_rsm_fields
          framed_record_def)
  have v: "version (snd (onDeltaRecord counter_env framed_record counter_rsm)) = 11"
    by (simp add: onDeltaRecord_version counter_rsm_fields framed_record_applies)
       (simp add: framed_record_def)
  from h v version_order_preserved [where s = counter_rsm and e = counter_env and r = framed_record]
  show ?thesis by blast
qed

end
